theory Spec2Isabelle
  imports Complex_Main
begin

section \<open>ENAS ResNet construction (models/resnet\_enas.py)\<close>

text \<open>
  The module builds residual blocks whose convolutions can take their weight tensors from a
  partner block, and stacks them into ResNet V1 and V2 networks. Building is Python code that
  allocates parameter tensors and may raise; the embedding threads a counter of allocated
  tensors through every constructor and returns errors as values.
\<close>

subsection \<open>Errors\<close>

text \<open>
  The exceptions of the module. The three \<^verbatim>\<open>assert\<close> statements raise Python's
  AssertionError and the pretrained check raises ValueError; they carry the names the
  specification gives them. The other constructors are the Python exceptions themselves.
\<close>

datatype error =
    InvalidConfiguration    \<comment> \<open>the two asserts of \<^verbatim>\<open>get_resnet_enas\<close>\<close>
  | ConfigurationError      \<comment> \<open>\<^verbatim>\<open>assert len(layers) == len(channels) - 1\<close>\<close>
  | UnsupportedOperation    \<comment> \<open>\<^verbatim>\<open>raise ValueError("No pretrained model exists, yet.")\<close>\<close>
  | ShapeMismatch           \<comment> \<open>shared parameters of the wrong shape\<close>
  | TypeError string
  | AttributeError string
  | IndexError
  | KeyError

subsection \<open>Construction with allocation\<close>

text \<open>
  A constructor runs from the number of parameter sets allocated so far, and returns either
  the error it raised or its result with the new count.
\<close>

type_synonym 'a build = "nat \<Rightarrow> error + ('a \<times> nat)"

definition ret :: "'a \<Rightarrow> 'a build" where
  "ret x s = Inr (x, s)"

definition lift :: "error + 'a \<Rightarrow> 'a build" where
  "lift r s = (case r of Inl e \<Rightarrow> Inl e | Inr x \<Rightarrow> Inr (x, s))"

definition bnd :: "'a build \<Rightarrow> ('a \<Rightarrow> 'b build) \<Rightarrow> 'b build" where
  "bnd m f s = (case m s of Inl e \<Rightarrow> Inl e | Inr (x, s') \<Rightarrow> f x s')"

definition fresh :: "nat build" where
  "fresh s = Inr (s, Suc s)"

text \<open>Python's \<^verbatim>\<open>xs[i]\<close> for an index that is not negative.\<close>

definition item :: "'a list \<Rightarrow> nat \<Rightarrow> error + 'a" where
  "item xs i = (if i < length xs then Inr (xs ! i) else Inl IndexError)"

text \<open>Python's \<^verbatim>\<open>xs[-1]\<close>.\<close>

definition last_item :: "'a list \<Rightarrow> error + 'a" where
  "last_item xs = (case xs of [] \<Rightarrow> Inl IndexError | _ # _ \<Rightarrow> Inr (last xs))"

subsection \<open>Layers of the framework\<close>

text \<open>
  Modelled from the spec: the parameters of a convolution, which is all a block takes from
  its partner. The specification has the corresponding convolutions of a block and its
  partner hold the same tensor, with shapes that match exactly: the same
  channels/stride/bit-width triple on both sides. The model keeps the identity of the weight
  tensor and, as its shape, this triple of the convolution it was allocated for: channels,
  stride and bit width, in this order.
\<close>

record params =
  pid :: nat
  shape :: "int list"

text \<open>
  The binarization settings that \<^verbatim>\<open>set_binary_layer_config\<close> makes ambient for the
  layers built inside its \<^verbatim>\<open>with\<close> block; here every layer constructor takes them.
\<close>

record layer_config =
  cfg_bits :: int
  cfg_bits_a :: int
  cfg_grad_cancel :: real

record qconv2d =
  conv_channels :: int
  conv_kernel_size :: int
  conv_strides :: int
  conv_padding :: int
  conv_in_channels :: int
  conv_use_bias :: "bool option"
  conv_bits :: int
  conv_grad_cancel :: real
  conv_params :: params

datatype sublayer =
    BatchNorm bool "real option" nat
      \<comment> \<open>\<^verbatim>\<open>nn.BatchNorm(scale, epsilon)\<close>; the number identifies its parameters and statistics\<close>
  | ActivatedConv qconv2d
      \<comment> \<open>\<^verbatim>\<open>activated_conv(...)\<close>: an activation and the convolution it exposes as \<^verbatim>\<open>.qconv\<close>\<close>
  | QConv qconv2d
  | Activation string

text \<open>
  Modelled from the spec: the parameter storage of the convolution layers
  (\<^verbatim>\<open>QConv2D\<close> and \<^verbatim>\<open>activated_conv\<close> of utils/binary\_layers.py, which is not
  among the sources). By the specification a sub-layer is either freshly allocated or
  aliased to the partner's corresponding sub-layer, and a weight-sharing partner of an
  incompatible tensor shape is a ShapeMismatch. So a layer built without \<^verbatim>\<open>params\<close>
  allocates a new weight tensor; a layer built with the parameters of another layer holds
  that very tensor when its triple is the new layer's, and construction fails with
  ShapeMismatch when it is not. The input channels are no part of the triple (the default
  \<^verbatim>\<open>in_channels=0\<close> leaves them to be inferred).
\<close>

definition conv_weight :: "params option \<Rightarrow> int list \<Rightarrow> params build" where
  "conv_weight given shp =
     (case given of
        None \<Rightarrow> bnd fresh (\<lambda>i. ret \<lparr>pid = i, shape = shp\<rparr>)
      | Some p \<Rightarrow> if shape p = shp then ret p else lift (Inl ShapeMismatch))"

text \<open>
  Modelled from the spec: \<^verbatim>\<open>QConv2D(channels, kernel_size, strides, padding, in_channels,
  use_bias, bits, params)\<close>. An explicit \<^verbatim>\<open>bits\<close> argument overrides the ambient one;
  the weight is asked for with the triple of the layer's channels, strides and bit width.
\<close>

definition conv_layer ::
  "layer_config \<Rightarrow> int \<Rightarrow> int \<Rightarrow> int \<Rightarrow> int \<Rightarrow> int \<Rightarrow> bool option \<Rightarrow> int option
     \<Rightarrow> params \<Rightarrow> qconv2d" where
  "conv_layer cfg channels kernel_size strides padding in_channels use_bias bits w =
     \<lparr>conv_channels = channels, conv_kernel_size = kernel_size,
      conv_strides = strides, conv_padding = padding,
      conv_in_channels = in_channels, conv_use_bias = use_bias,
      conv_bits = (case bits of None \<Rightarrow> cfg_bits cfg | Some b \<Rightarrow> b),
      conv_grad_cancel = cfg_grad_cancel cfg, conv_params = w\<rparr>"

definition QConv2D ::
  "layer_config \<Rightarrow> int \<Rightarrow> int \<Rightarrow> int \<Rightarrow> int \<Rightarrow> int \<Rightarrow> bool option \<Rightarrow> int option
     \<Rightarrow> params option \<Rightarrow> qconv2d build" where
  "QConv2D cfg channels kernel_size strides padding in_channels use_bias bits given =
     bnd (conv_weight given
            [channels, strides, (case bits of None \<Rightarrow> cfg_bits cfg | Some b \<Rightarrow> b)])
       (\<lambda>w. ret (conv_layer cfg channels kernel_size strides padding in_channels use_bias
                    bits w))"

text \<open>
  Modelled from the spec: \<^verbatim>\<open>activated_conv(channels, kernel_size, stride, padding,
  in_channels, params)\<close>, the quantized activation followed by a \<^verbatim>\<open>QConv2D\<close>.
\<close>

definition activated_conv ::
  "layer_config \<Rightarrow> int \<Rightarrow> int \<Rightarrow> int \<Rightarrow> int \<Rightarrow> int \<Rightarrow> params option \<Rightarrow> sublayer build" where
  "activated_conv cfg channels kernel_size stride padding in_channels given =
     bnd (QConv2D cfg channels kernel_size stride padding in_channels None None given)
       (\<lambda>c. ret (ActivatedConv c))"

text \<open>\<^verbatim>\<open>nn.BatchNorm()\<close> takes no parameters from anyone: it always allocates its own.\<close>

definition new_BatchNorm :: "bool \<Rightarrow> real option \<Rightarrow> sublayer build" where
  "new_BatchNorm scale epsilon = bnd fresh (\<lambda>i. ret (BatchNorm scale epsilon i))"

text \<open>Attribute reads on a layer: \<^verbatim>\<open>.qconv\<close> and \<^verbatim>\<open>.params\<close>.\<close>

definition qconv :: "sublayer \<Rightarrow> error + qconv2d" where
  "qconv l = (case l of ActivatedConv c \<Rightarrow> Inr c | _ \<Rightarrow> Inl (AttributeError ''qconv''))"

definition layer_params :: "sublayer \<Rightarrow> error + params" where
  "layer_params l = (case l of QConv c \<Rightarrow> Inr (conv_params c)
                     | _ \<Rightarrow> Inl (AttributeError ''params''))"

text \<open>\<^verbatim>\<open>seq[i].qconv.params\<close> on a \<^verbatim>\<open>HybridSequential\<close>.\<close>

definition qconv_params_at :: "sublayer list \<Rightarrow> nat \<Rightarrow> error + params" where
  "qconv_params_at seq i =
     (case item seq i of Inl e \<Rightarrow> Inl e
      | Inr l \<Rightarrow> (case qconv l of Inl e \<Rightarrow> Inl e | Inr c \<Rightarrow> Inr (conv_params c)))"

subsection \<open>The helper \<^verbatim>\<open>_conv3x3\<close> and the binding of its arguments\<close>

text \<open>
  Python binds the positional arguments of a call to the parameters from the left and the
  keyword arguments by name. A keyword that names a parameter already filled, a keyword no
  parameter has, too many positional arguments and a parameter left without a value are
  each a TypeError. \<^verbatim>\<open>bind_args\<close> returns the values in the order of the parameters.
\<close>

definition bind_args :: "string list \<Rightarrow> int list \<Rightarrow> (string \<times> int) list \<Rightarrow> error + int list" where
  "bind_args names pos kws =
     (if length names < length pos then Inl (TypeError ''too many positional arguments'')
      else if list_ex (\<lambda>k. k \<in> set (take (length pos) names)) (map fst kws)
        then Inl (TypeError ''got multiple values for argument'')
      else if list_ex (\<lambda>k. k \<notin> set names) (map fst kws)
        then Inl (TypeError ''got an unexpected keyword argument'')
      else if list_ex (\<lambda>n. n \<notin> set (map fst kws)) (drop (length pos) names)
        then Inl (TypeError ''missing required positional argument'')
      else Inr (pos @ map (\<lambda>n. the (map_of kws n)) (drop (length pos) names)))"

text \<open>
  \<^verbatim>\<open>def _conv3x3(bits, channels, stride, in_channels, params=None)\<close>, called with the
  positional and keyword arguments of the call site; \<^verbatim>\<open>params\<close> is always passed by
  keyword. The activation method chosen from \<^verbatim>\<open>bits\<close> is not modelled.
\<close>

definition conv3x3 ::
  "layer_config \<Rightarrow> int list \<Rightarrow> (string \<times> int) list \<Rightarrow> params option \<Rightarrow> qconv2d build" where
  "conv3x3 cfg pos kws given =
     (case bind_args [''bits'', ''channels'', ''stride'', ''in_channels''] pos kws of
        Inl e \<Rightarrow> lift (Inl e)
      | Inr vs \<Rightarrow>
          QConv2D cfg (vs ! 1) 3 (vs ! 2) 1 (vs ! 3) None (Some (vs ! 0)) given)"

text \<open>
  \<^verbatim>\<open>grad_cancel = self.grad_cancel if self.bits == 1 else 2 ** 31\<close> and the settings
  \<^verbatim>\<open>set_binary_layer_config(bits=self.bits, bits_a=self.bits, grad_cancel=grad_cancel)\<close>.
\<close>

definition block_config :: "int \<Rightarrow> real \<Rightarrow> layer_config" where
  "block_config bits grad_cancel =
     \<lparr>cfg_bits = bits, cfg_bits_a = bits,
      cfg_grad_cancel = (if bits = 1 then grad_cancel else 2 ^ 31)\<rparr>"

subsection \<open>Reading a partner\<close>

text \<open>
  \<^verbatim>\<open>super().__init__(params=parameter_sharing_partner.params)\<close> with a partner and
  \<^verbatim>\<open>super().__init__()\<close> without one: the parameter dictionary of the block itself is
  the partner's, or a new one. The constructors put no tensor into it: every tensor of a
  block belongs to one of its layers. The model keeps which dictionary the block has.
\<close>

definition HybridBlock_init :: "nat option \<Rightarrow> nat build" where
  "HybridBlock_init given = (case given of None \<Rightarrow> fresh | Some d \<Rightarrow> ret d)"

text \<open>
  \<^verbatim>\<open>x = None\<close> followed by \<^verbatim>\<open>if parameter_sharing_partner: x = <read of the partner>\<close>.
  A block object is always true in a condition, so the test is whether a partner was given.
\<close>

definition from_partner :: "'p option \<Rightarrow> ('p \<Rightarrow> error + 'a option) \<Rightarrow> error + 'a option" where
  "from_partner partner rd = (case partner of None \<Rightarrow> Inr None | Some p \<Rightarrow> rd p)"

definition some_of :: "error + 'a \<Rightarrow> error + 'a option" where
  "some_of r = (case r of Inl e \<Rightarrow> Inl e | Inr x \<Rightarrow> Inr (Some x))"

text \<open>\<^verbatim>\<open>seq[0].qconv.params\<close> where \<^verbatim>\<open>seq\<close> may be \<^verbatim>\<open>None\<close>.\<close>

definition optional_qconv_params_at :: "sublayer list option \<Rightarrow> nat \<Rightarrow> error + params" where
  "optional_qconv_params_at seq i =
     (case seq of None \<Rightarrow> Inl (TypeError ''NoneType object is not subscriptable'')
      | Some d \<Rightarrow> qconv_params_at d i)"

text \<open>The truth value of an optional \<^verbatim>\<open>HybridSequential\<close>: not \<^verbatim>\<open>None\<close> and not empty.\<close>

definition truthy :: "'a list option \<Rightarrow> bool" where
  "truthy seq = (case seq of None \<Rightarrow> False | Some d \<Rightarrow> d \<noteq> [])"

subsection \<open>BasicBlockV1Enas\<close>

record basic_v1 =
  v1_params :: nat
  v1_channels :: int
  v1_stride :: int
  v1_in_channels :: int
  v1_bits :: int
  v1_grad_cancel :: real
  v1_body :: "sublayer list"
  v1_downsample :: "sublayer list option"

definition BasicBlockV1Enas_init ::
  "basic_v1 \<Rightarrow> basic_v1 option \<Rightarrow> params option \<Rightarrow> params option \<Rightarrow> params option
     \<Rightarrow> basic_v1 build" where
  "BasicBlockV1Enas_init self parameter_sharing_partner conv1_weights conv2_weights
       downsample_conv_weights =
     (let cfg = block_config (v1_bits self) (v1_grad_cancel self) in
      bnd (activated_conv cfg (v1_channels self) 3 (v1_stride self) 1 (v1_in_channels self)
             conv1_weights) (\<lambda>c1.
      bnd (new_BatchNorm True None) (\<lambda>b1.
      bnd (activated_conv cfg (v1_channels self) 3 1 1 (v1_channels self) conv2_weights) (\<lambda>c2.
      bnd (new_BatchNorm True None) (\<lambda>b2.
      let self = self\<lparr>v1_body := v1_body self @ [c1, b1, c2, b2]\<rparr> in
      (case v1_downsample self of
         None \<Rightarrow> ret self
       | Some d \<Rightarrow>
           bnd (activated_conv cfg (v1_channels self) 1 (v1_stride self) 0 (v1_in_channels self)
                  downsample_conv_weights) (\<lambda>dc.
           bnd (new_BatchNorm True None) (\<lambda>db.
           ret (self\<lparr>v1_downsample := Some (d @ [dc, db])\<rparr>)))))))))"

definition BasicBlockV1Enas ::
  "int \<Rightarrow> int \<Rightarrow> bool \<Rightarrow> int \<Rightarrow> bool \<Rightarrow> int \<Rightarrow> real \<Rightarrow> basic_v1 option \<Rightarrow> basic_v1 build" where
  "BasicBlockV1Enas channels stride downsample in_channels init bits grad_cancel
       parameter_sharing_partner =
     bnd (HybridBlock_init (map_option v1_params parameter_sharing_partner)) (\<lambda>params.
     bnd (lift (from_partner parameter_sharing_partner
                  (\<lambda>p. some_of (qconv_params_at (v1_body p) 0)))) (\<lambda>conv1_weights.
     bnd (lift (from_partner parameter_sharing_partner
                  (\<lambda>p. some_of (qconv_params_at (v1_body p) 2)))) (\<lambda>conv2_weights.
     bnd (lift (if downsample
                then from_partner parameter_sharing_partner
                       (\<lambda>p. some_of (optional_qconv_params_at (v1_downsample p) 0))
                else Inr None)) (\<lambda>downsample_conv_weights.
     let self = \<lparr>v1_params = params, v1_channels = channels, v1_stride = stride,
                 v1_in_channels = in_channels, v1_bits = bits, v1_grad_cancel = grad_cancel,
                 v1_body = [], v1_downsample = (if downsample then Some [] else None)\<rparr> in
     if init
     then BasicBlockV1Enas_init self parameter_sharing_partner conv1_weights conv2_weights
            downsample_conv_weights
     else ret self))))"

text \<open>
  \<^verbatim>\<open>latency_function\<close> returns the integer 3 or a float. For an integer \<^verbatim>\<open>bits\<close> below
  \<open>2 ^ 49\<close> in size every intermediate value of the float expression is a dyadic rational
  that binary64 holds exactly, so the result is the real number computed here.
\<close>

definition BasicBlockV1Enas_latency_function :: "basic_v1 \<Rightarrow> real \<Rightarrow> real" where
  "BasicBlockV1Enas_latency_function self measured_forward_latency =
     (if v1_bits self = 32 then 3
      else 3 * (0.25 + 0.75 * (real_of_int (v1_bits self) / 32)))"

subsection \<open>BasicBlockV2Enas\<close>

text \<open>
  \<^verbatim>\<open>downsample_conv_weights\<close> is an attribute only a block built with
  \<^verbatim>\<open>downsample=True\<close> has; the outer \<open>None\<close> is the missing attribute.
\<close>

record basic_v2 =
  v2_params :: nat
  v2_channels :: int
  v2_stride :: int
  v2_bits :: int
  v2_in_channels :: int
  v2_grad_cancel :: real
  v2_bn :: sublayer
  v2_body :: "sublayer list"
  v2_conv1_weights :: "params option"
  v2_conv2_weights :: "params option"
  v2_downsample :: "sublayer list option"
  v2_downsample_conv_weights :: "params option option"

definition read_downsample_conv_weights :: "params option option \<Rightarrow> error + params option" where
  "read_downsample_conv_weights a =
     (case a of None \<Rightarrow> Inl (AttributeError ''downsample_conv_weights'') | Some w \<Rightarrow> Inr w)"

definition BasicBlockV2Enas_init :: "basic_v2 \<Rightarrow> basic_v2 option \<Rightarrow> basic_v2 build" where
  "BasicBlockV2Enas_init self parameter_sharing_partner =
     (let cfg = block_config (v2_bits self) (v2_grad_cancel self) in
      bnd (activated_conv cfg (v2_channels self) 3 (v2_stride self) 1 (v2_in_channels self)
             (v2_conv1_weights self)) (\<lambda>c1.
      bnd (new_BatchNorm True None) (\<lambda>b1.
      bnd (activated_conv cfg (v2_channels self) 3 1 1 (v2_channels self)
             (v2_conv2_weights self)) (\<lambda>c2.
      let self = self\<lparr>v2_body := v2_body self @ [c1, b1, c2]\<rparr> in
      bnd (case v2_downsample self of
             None \<Rightarrow> ret self
           | Some d \<Rightarrow>
               bnd (lift (read_downsample_conv_weights (v2_downsample_conv_weights self)))
                 (\<lambda>w.
               bnd (activated_conv cfg (v2_channels self) 1 (v2_stride self) 0
                      (v2_in_channels self) w) (\<lambda>dc.
               ret (self\<lparr>v2_downsample := Some (d @ [dc])\<rparr>)))) (\<lambda>self.
      if parameter_sharing_partner = None
      then
        bnd (lift (qconv_params_at (v2_body self) 0)) (\<lambda>w1.
        bnd (lift (qconv_params_at (v2_body self) 2)) (\<lambda>w2.
        let self = self\<lparr>v2_conv1_weights := Some w1, v2_conv2_weights := Some w2\<rparr> in
        if truthy (v2_downsample self)
        then bnd (lift (optional_qconv_params_at (v2_downsample self) 0)) (\<lambda>dw.
             ret (self\<lparr>v2_downsample_conv_weights := Some (Some dw)\<rparr>))
        else ret self))
      else ret self)))))"

definition BasicBlockV2Enas ::
  "int \<Rightarrow> int \<Rightarrow> bool \<Rightarrow> int \<Rightarrow> bool \<Rightarrow> int \<Rightarrow> real \<Rightarrow> basic_v2 option \<Rightarrow> basic_v2 build" where
  "BasicBlockV2Enas channels stride downsample in_channels init bits grad_cancel
       parameter_sharing_partner =
     bnd (HybridBlock_init (map_option v2_params parameter_sharing_partner)) (\<lambda>params.
     bnd (new_BatchNorm True None) (\<lambda>bn.
     bnd (lift (from_partner parameter_sharing_partner (\<lambda>p. Inr (v2_conv1_weights p))))
       (\<lambda>conv1_weights.
     bnd (lift (from_partner parameter_sharing_partner (\<lambda>p. Inr (v2_conv2_weights p))))
       (\<lambda>conv2_weights.
     bnd (lift (if downsample
                then (case parameter_sharing_partner of
                        Some p \<Rightarrow>
                          some_of (read_downsample_conv_weights (v2_downsample_conv_weights p))
                      | None \<Rightarrow> Inr (Some None))
                else Inr None)) (\<lambda>downsample_conv_weights.
     let self = \<lparr>v2_params = params, v2_channels = channels, v2_stride = stride,
                 v2_bits = bits,
                 v2_in_channels = in_channels, v2_grad_cancel = grad_cancel, v2_bn = bn,
                 v2_body = [], v2_conv1_weights = conv1_weights,
                 v2_conv2_weights = conv2_weights,
                 v2_downsample = (if downsample then Some [] else None),
                 v2_downsample_conv_weights = downsample_conv_weights\<rparr> in
     if init then BasicBlockV2Enas_init self parameter_sharing_partner else ret self)))))"

definition BasicBlockV2Enas_latency_function :: "basic_v2 \<Rightarrow> real \<Rightarrow> real" where
  "BasicBlockV2Enas_latency_function self measured_forward_latency =
     (if v2_bits self = 32 then 3
      else 3 * (0.25 + 0.75 * (real_of_int (v2_bits self) / 32)))"

subsection \<open>BottleneckV1Enas\<close>

record bottleneck_v1 =
  bv1_params :: nat
  bv1_bits :: int
  bv1_conv1_weights :: "params option"
  bv1_conv2_weights :: "params option"
  bv1_conv3_weights :: "params option"
  bv1_downsample_conv_weights :: "params option"
  bv1_body :: "sublayer list"
  bv1_downsample :: "sublayer list option"

text \<open>\<^verbatim>\<open>seq[i].params\<close>.\<close>

definition params_at :: "sublayer list \<Rightarrow> nat \<Rightarrow> error + params" where
  "params_at seq i = (case item seq i of Inl e \<Rightarrow> Inl e | Inr l \<Rightarrow> layer_params l)"

text \<open>
  The constructor, with the call that builds the second convolution as its first argument:
  the call is given the binarization settings in force and \<^verbatim>\<open>self.conv2_weights\<close>.
\<close>

definition BottleneckV1Enas_with ::
  "(layer_config \<Rightarrow> params option \<Rightarrow> qconv2d build)
     \<Rightarrow> int \<Rightarrow> int \<Rightarrow> bool \<Rightarrow> int \<Rightarrow> int \<Rightarrow> real \<Rightarrow> bottleneck_v1 option
     \<Rightarrow> bottleneck_v1 build" where
  "BottleneckV1Enas_with second_conv channels stride downsample in_channels bits grad_cancel
       parameter_sharing_partner =
     bnd (HybridBlock_init (map_option bv1_params parameter_sharing_partner)) (\<lambda>params.
     let conv1_weights = (case parameter_sharing_partner of
                            None \<Rightarrow> None | Some p \<Rightarrow> bv1_conv1_weights p);
         conv2_weights = (case parameter_sharing_partner of
                            None \<Rightarrow> None | Some p \<Rightarrow> bv1_conv2_weights p);
         conv3_weights = (case parameter_sharing_partner of
                            None \<Rightarrow> None | Some p \<Rightarrow> bv1_conv3_weights p);
         downsample_conv_weights =
           (case parameter_sharing_partner of
              None \<Rightarrow> None
            | Some p \<Rightarrow> if downsample then bv1_downsample_conv_weights p else None);
         cfg = block_config bits grad_cancel in
      bnd (QConv2D cfg (channels div 4) 1 stride 0 0 None None conv1_weights) (\<lambda>c1.
      bnd (new_BatchNorm True None) (\<lambda>b1.
      bnd (second_conv cfg conv2_weights) (\<lambda>c2.
      bnd (new_BatchNorm True None) (\<lambda>b2.
      bnd (QConv2D cfg channels 1 1 0 0 None None conv3_weights) (\<lambda>c3.
      bnd (new_BatchNorm True None) (\<lambda>b3.
      bnd (if downsample
           then bnd (QConv2D cfg channels 1 stride 0 in_channels (Some False) None
                       downsample_conv_weights) (\<lambda>dc.
                bnd (new_BatchNorm True None) (\<lambda>db. ret (Some [QConv dc, db])))
           else ret None) (\<lambda>ds.
      let self = \<lparr>bv1_params = params, bv1_bits = bits, bv1_conv1_weights = conv1_weights,
                  bv1_conv2_weights = conv2_weights, bv1_conv3_weights = conv3_weights,
                  bv1_downsample_conv_weights = downsample_conv_weights,
                  bv1_body = [QConv c1, b1, Activation ''relu'', QConv c2, b2,
                              Activation ''relu'', QConv c3, b3],
                  bv1_downsample = ds\<rparr> in
      if parameter_sharing_partner = None
      then
        bnd (lift (params_at (bv1_body self) 0)) (\<lambda>w1.
        bnd (lift (params_at (bv1_body self) 3)) (\<lambda>w2.
        bnd (lift (params_at (bv1_body self) 6)) (\<lambda>w3.
        let self = self\<lparr>bv1_conv1_weights := Some w1, bv1_conv2_weights := Some w2,
                         bv1_conv3_weights := Some w3\<rparr> in
        if downsample
        then bnd (lift (optional_qconv_params_at (bv1_downsample self) 0)) (\<lambda>dw.
             ret (self\<lparr>bv1_downsample_conv_weights := Some dw\<rparr>))
        else ret self)))
      else ret self))))))))"

text \<open>
  The second convolution is built by \<^verbatim>\<open>_conv3x3(channels // 4, 1, channels // 4,
  params=self.conv2_weights)\<close>: three positional arguments and \<^verbatim>\<open>params\<close>.
\<close>

definition BottleneckV1Enas ::
  "int \<Rightarrow> int \<Rightarrow> bool \<Rightarrow> int \<Rightarrow> int \<Rightarrow> real \<Rightarrow> bottleneck_v1 option \<Rightarrow> bottleneck_v1 build" where
  "BottleneckV1Enas channels stride downsample in_channels bits grad_cancel
       parameter_sharing_partner =
     BottleneckV1Enas_with
       (\<lambda>cfg conv2_weights. conv3x3 cfg [channels div 4, 1, channels div 4] [] conv2_weights)
       channels stride downsample in_channels bits grad_cancel parameter_sharing_partner"

definition BottleneckV1Enas_latency_function :: "bottleneck_v1 \<Rightarrow> real \<Rightarrow> real" where
  "BottleneckV1Enas_latency_function self measured_forward_latency =
     (if bv1_bits self = 32 then 3
      else 3 * (0.25 + 0.75 * (real_of_int (bv1_bits self) / 32)))"

subsection \<open>BottleneckV2Enas\<close>

record bottleneck_v2 =
  bv2_params :: nat
  bv2_bits :: int
  bv2_conv1_weights :: "params option"
  bv2_conv2_weights :: "params option"
  bv2_conv3_weights :: "params option"
  bv2_downsample_conv_weights :: "params option"
  bv2_bn1 :: sublayer
  bv2_conv1 :: qconv2d
  bv2_bn2 :: sublayer
  bv2_conv2 :: qconv2d
  bv2_bn3 :: sublayer
  bv2_conv3 :: qconv2d
  bv2_downsample :: "qconv2d option"

text \<open>
  The read of \<^verbatim>\<open>self.downsample_weights\<close> in the arguments of the downsample convolution.
  The class assigns \<^verbatim>\<open>bits\<close>, \<^verbatim>\<open>conv1_weights\<close>, \<^verbatim>\<open>conv2_weights\<close>,
  \<^verbatim>\<open>conv3_weights\<close>, \<^verbatim>\<open>downsample_conv_weights\<close>, the three batchnorms, the three
  convolutions and \<^verbatim>\<open>downsample\<close>, and no attribute of that name, so the read raises.
\<close>

definition read_downsample_weights :: "error + params option" where
  "read_downsample_weights = Inl (AttributeError ''downsample_weights'')"

text \<open>
  The constructor, with the call that builds the second convolution as its first argument:
  the call is given the binarization settings in force and \<^verbatim>\<open>self.conv2_weights\<close>.
\<close>

definition BottleneckV2Enas_with ::
  "(layer_config \<Rightarrow> params option \<Rightarrow> qconv2d build)
     \<Rightarrow> int \<Rightarrow> int \<Rightarrow> bool \<Rightarrow> int \<Rightarrow> int \<Rightarrow> real \<Rightarrow> bottleneck_v2 option
     \<Rightarrow> bottleneck_v2 build" where
  "BottleneckV2Enas_with second_conv channels stride downsample in_channels bits grad_cancel
       parameter_sharing_partner =
     bnd (HybridBlock_init (map_option bv2_params parameter_sharing_partner)) (\<lambda>params.
     (let conv1_weights = (case parameter_sharing_partner of
                             None \<Rightarrow> None | Some p \<Rightarrow> bv2_conv1_weights p);
          conv2_weights = (case parameter_sharing_partner of
                             None \<Rightarrow> None | Some p \<Rightarrow> bv2_conv2_weights p);
          conv3_weights = (case parameter_sharing_partner of
                             None \<Rightarrow> None | Some p \<Rightarrow> bv2_conv3_weights p);
          downsample_conv_weights =
            (case parameter_sharing_partner of
               None \<Rightarrow> None
             | Some p \<Rightarrow> if downsample then bv2_downsample_conv_weights p else None);
          cfg = block_config bits grad_cancel in
      bnd (new_BatchNorm True None) (\<lambda>bn1.
      bnd (QConv2D cfg (channels div 4) 1 1 0 0 (Some False) None conv1_weights) (\<lambda>conv1.
      bnd (new_BatchNorm True None) (\<lambda>bn2.
      bnd (second_conv cfg conv2_weights) (\<lambda>conv2.
      bnd (new_BatchNorm True None) (\<lambda>bn3.
      bnd (QConv2D cfg channels 1 1 0 0 (Some False) None conv3_weights) (\<lambda>conv3.
      bnd (if downsample
           then bnd (lift read_downsample_weights) (\<lambda>w.
                bnd (QConv2D cfg channels 1 stride 0 in_channels (Some False) None w)
                  (\<lambda>dc. ret (Some dc)))
           else ret None) (\<lambda>ds.
      let self = \<lparr>bv2_params = params, bv2_bits = bits, bv2_conv1_weights = conv1_weights,
                  bv2_conv2_weights = conv2_weights, bv2_conv3_weights = conv3_weights,
                  bv2_downsample_conv_weights = downsample_conv_weights,
                  bv2_bn1 = bn1, bv2_conv1 = conv1, bv2_bn2 = bn2, bv2_conv2 = conv2,
                  bv2_bn3 = bn3, bv2_conv3 = conv3, bv2_downsample = ds\<rparr> in
      if parameter_sharing_partner = None
      then
        (let self = self\<lparr>bv2_conv1_weights := Some (conv_params conv1),
                          bv2_conv2_weights := Some (conv_params conv2),
                          bv2_conv3_weights := Some (conv_params conv3)\<rparr> in
         if downsample
         then (case bv2_downsample self of
                 None \<Rightarrow> lift (Inl (AttributeError ''params''))
               | Some dc \<Rightarrow>
                   ret (self\<lparr>bv2_downsample_conv_weights := Some (conv_params dc)\<rparr>))
         else ret self)
      else ret self)))))))))"

text \<open>
  The second convolution is built by \<^verbatim>\<open>_conv3x3(channels // 4, stride, channels // 4,
  bits=self.bits, params=self.conv2_weights)\<close>: three positional arguments, and
  \<^verbatim>\<open>bits\<close> again by keyword.
\<close>

definition BottleneckV2Enas ::
  "int \<Rightarrow> int \<Rightarrow> bool \<Rightarrow> int \<Rightarrow> int \<Rightarrow> real \<Rightarrow> bottleneck_v2 option \<Rightarrow> bottleneck_v2 build" where
  "BottleneckV2Enas channels stride downsample in_channels bits grad_cancel
       parameter_sharing_partner =
     BottleneckV2Enas_with
       (\<lambda>cfg conv2_weights.
          conv3x3 cfg [channels div 4, stride, channels div 4] [(''bits'', bits)] conv2_weights)
       channels stride downsample in_channels bits grad_cancel parameter_sharing_partner"

definition BottleneckV2Enas_latency_function :: "bottleneck_v2 \<Rightarrow> real \<Rightarrow> real" where
  "BottleneckV2Enas_latency_function self measured_forward_latency =
     (if bv2_bits self = 32 then 3
      else 3 * (0.25 + 0.75 * (real_of_int (bv2_bits self) / 32)))"

subsection \<open>Blocks and their classes\<close>

datatype block =
    BasicV1 basic_v1
  | BottleneckV1 bottleneck_v1
  | BasicV2 basic_v2
  | BottleneckV2 bottleneck_v2

datatype block_class =
    BasicBlockV1EnasClass
  | BottleneckV1EnasClass
  | BasicBlockV2EnasClass
  | BottleneckV2EnasClass

text \<open>The method \<^verbatim>\<open>latency_function\<close> of a block, dispatched on its class.\<close>

fun latency_function :: "block \<Rightarrow> real \<Rightarrow> real" where
  "latency_function (BasicV1 b) m = BasicBlockV1Enas_latency_function b m"
| "latency_function (BottleneckV1 b) m = BottleneckV1Enas_latency_function b m"
| "latency_function (BasicV2 b) m = BasicBlockV2Enas_latency_function b m"
| "latency_function (BottleneckV2 b) m = BottleneckV2Enas_latency_function b m"

fun block_bits :: "block \<Rightarrow> int" where
  "block_bits (BasicV1 b) = v1_bits b"
| "block_bits (BottleneckV1 b) = bv1_bits b"
| "block_bits (BasicV2 b) = v2_bits b"
| "block_bits (BottleneckV2 b) = bv2_bits b"

text \<open>
  A call \<^verbatim>\<open>block(channels, stride, downsample, in_channels=..., prefix='',
  grad_cancel=...)\<close> of a block class, as \<^verbatim>\<open>_make_layer\<close> makes it: \<^verbatim>\<open>init\<close>,
  \<^verbatim>\<open>bits\<close> and \<^verbatim>\<open>parameter_sharing_partner\<close> keep their defaults \<^verbatim>\<open>True\<close>, \<open>1\<close>
  and \<^verbatim>\<open>None\<close>. The \<^verbatim>\<open>enas_unit\<close> decorator of the search library, which wraps each
  class, is not among the sources; the call is the call of the class itself.
\<close>

fun new_block :: "block_class \<Rightarrow> int \<Rightarrow> int \<Rightarrow> bool \<Rightarrow> int \<Rightarrow> real \<Rightarrow> block build" where
  "new_block BasicBlockV1EnasClass channels stride downsample in_channels grad_cancel =
     bnd (BasicBlockV1Enas channels stride downsample in_channels True 1 grad_cancel None)
       (\<lambda>b. ret (BasicV1 b))"
| "new_block BottleneckV1EnasClass channels stride downsample in_channels grad_cancel =
     bnd (BottleneckV1Enas channels stride downsample in_channels 1 grad_cancel None)
       (\<lambda>b. ret (BottleneckV1 b))"
| "new_block BasicBlockV2EnasClass channels stride downsample in_channels grad_cancel =
     bnd (BasicBlockV2Enas channels stride downsample in_channels True 1 grad_cancel None)
       (\<lambda>b. ret (BasicV2 b))"
| "new_block BottleneckV2EnasClass channels stride downsample in_channels grad_cancel =
     bnd (BottleneckV2Enas channels stride downsample in_channels 1 grad_cancel None)
       (\<lambda>b. ret (BottleneckV2 b))"

subsection \<open>The networks\<close>

datatype net_layer =
    Layer sublayer
  | InitialLayers string int nat
      \<comment> \<open>the stem built by \<^verbatim>\<open>add_initial_layers(initial_layers, ..., channels[0])\<close>\<close>
  | Block block
  | GlobalAvgPool2D
  | Flatten
  | Dense int int nat
      \<comment> \<open>\<^verbatim>\<open>nn.Dense(classes, in_units)\<close>\<close>

record resnet =
  features :: "net_layer list"
  net_output :: net_layer
  grad_cancel :: real
  initial_layers :: "net_layer option"

text \<open>\<^verbatim>\<open>ResNetEnas.__init__(channels, classes, grad_cancel=1.0)\<close>.\<close>

definition ResNetEnas :: "int list \<Rightarrow> int \<Rightarrow> real \<Rightarrow> resnet build" where
  "ResNetEnas channels classes gc =
     bnd (lift (last_item channels)) (\<lambda>in_units.
     bnd fresh (\<lambda>i.
     ret \<lparr>features = [], net_output = Dense classes in_units i, grad_cancel = gc,
          initial_layers = None\<rparr>))"

text \<open>
  The loop \<^verbatim>\<open>for _ in range(num_layers - 1)\<close> of \<^verbatim>\<open>_make_layer\<close>, by the number
  of rounds left.
\<close>

fun more_blocks :: "block_class \<Rightarrow> int \<Rightarrow> nat \<Rightarrow> block list build" where
  "more_blocks block channels 0 = ret []"
| "more_blocks block channels (Suc n) =
     bnd (new_block block channels 1 False channels 1) (\<lambda>b.
     bnd (more_blocks block channels n) (\<lambda>bs. ret (b # bs)))"

definition make_layer ::
  "resnet \<Rightarrow> block_class \<Rightarrow> int \<Rightarrow> int \<Rightarrow> int \<Rightarrow> nat \<Rightarrow> int \<Rightarrow> block list build" where
  "make_layer self block num_layers channels stride stage_index in_channels =
     bnd (new_block block channels stride (channels \<noteq> in_channels) in_channels
            (grad_cancel self)) (\<lambda>b.
     bnd (more_blocks block channels (nat (num_layers - 1))) (\<lambda>bs.
     ret (b # bs)))"

text \<open>\<^verbatim>\<open>enas_sequential\<close>: the features followed by the classification head.\<close>

definition enas_sequential :: "resnet \<Rightarrow> net_layer list" where
  "enas_sequential self = features self @ [net_output self]"

text \<open>
  Modelled from the spec: \<^verbatim>\<open>add_initial_layers\<close> of binary\_models/common\_layers.py, which
  is not among the sources: it fills the stem for the given variant and output channels.
\<close>

definition add_initial_layers :: "string \<Rightarrow> int \<Rightarrow> net_layer build" where
  "add_initial_layers variant channels = bnd fresh (\<lambda>i. ret (InitialLayers variant channels i))"

text \<open>
  The stage loop of \<^verbatim>\<open>ResNetV1Enas.__init__\<close>, from position \<open>i\<close> of
  \<^verbatim>\<open>enumerate(layers)\<close>; it returns the blocks it appends to the features.
\<close>

fun v1_stages :: "resnet \<Rightarrow> block_class \<Rightarrow> int list \<Rightarrow> nat \<Rightarrow> int list \<Rightarrow> block list build" where
  "v1_stages self block channels i [] = ret []"
| "v1_stages self block channels i (num_layer # rest) =
     bnd (lift (item channels (i + 1))) (\<lambda>c.
     bnd (lift (item channels i)) (\<lambda>ic.
     bnd (make_layer self block num_layer c (if i = 0 then 1 else 2) (i + 1) ic) (\<lambda>bs.
     bnd (v1_stages self block channels (i + 1) rest) (\<lambda>more.
     ret (bs @ more)))))"

definition ResNetV1Enas ::
  "block_class \<Rightarrow> int list \<Rightarrow> int list \<Rightarrow> int \<Rightarrow> string \<Rightarrow> real \<Rightarrow> resnet build" where
  "ResNetV1Enas block layers channels classes variant gc =
     bnd (ResNetEnas channels classes gc) (\<lambda>self.
     if int (length layers) \<noteq> int (length channels) - 1 then lift (Inl ConfigurationError)
     else
       bnd (new_BatchNorm False (Some (2 / 100000))) (\<lambda>bn0.
       bnd (lift (item channels 0)) (\<lambda>c0.
       bnd (add_initial_layers variant c0) (\<lambda>stem.
       bnd (new_BatchNorm True None) (\<lambda>bn1.
       bnd (v1_stages self block channels 0 layers) (\<lambda>blocks.
       ret (self\<lparr>features := [Layer bn0, stem, Layer bn1] @ map Block blocks
                       @ [Layer (Activation ''relu''), GlobalAvgPool2D, Flatten],
                   initial_layers := Some stem\<rparr>)))))))"

text \<open>
  The stage loop of \<^verbatim>\<open>ResNetV2Enas.__init__\<close>, which carries \<^verbatim>\<open>in_channels\<close> from
  one stage to the next.
\<close>

fun v2_stages ::
  "resnet \<Rightarrow> block_class \<Rightarrow> int list \<Rightarrow> nat \<Rightarrow> int \<Rightarrow> int list \<Rightarrow> block list build" where
  "v2_stages self block channels i in_channels [] = ret []"
| "v2_stages self block channels i in_channels (num_layer # rest) =
     bnd (lift (item channels (i + 1))) (\<lambda>c.
     bnd (make_layer self block num_layer c (if i = 0 then 1 else 2) (i + 1) in_channels)
       (\<lambda>bs.
     bnd (lift (item channels (i + 1))) (\<lambda>in_channels'.
     bnd (v2_stages self block channels (i + 1) in_channels' rest) (\<lambda>more.
     ret (bs @ more)))))"

definition ResNetV2Enas ::
  "block_class \<Rightarrow> int list \<Rightarrow> int list \<Rightarrow> int \<Rightarrow> string \<Rightarrow> real \<Rightarrow> resnet build" where
  "ResNetV2Enas block layers channels classes variant gc =
     bnd (ResNetEnas channels classes gc) (\<lambda>self.
     if int (length layers) \<noteq> int (length channels) - 1 then lift (Inl ConfigurationError)
     else
       bnd (new_BatchNorm False (Some (2 / 100000))) (\<lambda>bn0.
       bnd (lift (item channels 0)) (\<lambda>c0.
       bnd (add_initial_layers variant c0) (\<lambda>stem.
       bnd (lift (item channels 0)) (\<lambda>in_channels.
       bnd (v2_stages self block channels 0 in_channels layers) (\<lambda>blocks.
       bnd (new_BatchNorm True None) (\<lambda>bn1.
       ret (self\<lparr>features := [Layer bn0, stem] @ map Block blocks
                       @ [Layer bn1, Layer (Activation ''relu''), GlobalAvgPool2D, Flatten],
                   initial_layers := Some stem\<rparr>))))))))"

subsection \<open>The registry and \<^verbatim>\<open>get_resnet_enas\<close>\<close>

definition resnet_spec :: "int \<Rightarrow> (string \<times> int list \<times> int list) option" where
  "resnet_spec = map_of
     [(18, (''basic_block'', [2, 2, 2, 2], [64, 64, 128, 256, 512])),
      (34, (''basic_block'', [3, 4, 6, 3], [64, 64, 128, 256, 512])),
      (50, (''bottle_neck'', [3, 4, 6, 3], [64, 256, 512, 1024, 2048])),
      (101, (''bottle_neck'', [3, 4, 23, 3], [64, 256, 512, 1024, 2048])),
      (152, (''bottle_neck'', [3, 8, 36, 3], [64, 256, 512, 1024, 2048]))]"

datatype net_class = ResNetV1EnasClass | ResNetV2EnasClass

definition resnet_net_versions :: "net_class list" where
  "resnet_net_versions = [ResNetV1EnasClass, ResNetV2EnasClass]"

definition resnet_block_versions :: "(string \<Rightarrow> block_class option) list" where
  "resnet_block_versions =
     [map_of [(''basic_block'', BasicBlockV1EnasClass), (''bottle_neck'', BottleneckV1EnasClass)],
      map_of [(''basic_block'', BasicBlockV2EnasClass), (''bottle_neck'', BottleneckV2EnasClass)]]"

text \<open>
  The call \<^verbatim>\<open>resnet_class(block_class, layers, channels, **kwargs)\<close> without further
  keyword arguments: \<^verbatim>\<open>classes=1000\<close>, \<^verbatim>\<open>initial_layers="imagenet"\<close>,
  \<^verbatim>\<open>grad_cancel=1.0\<close>.
\<close>

fun new_net :: "net_class \<Rightarrow> block_class \<Rightarrow> int list \<Rightarrow> int list \<Rightarrow> resnet build" where
  "new_net ResNetV1EnasClass block layers channels =
     ResNetV1Enas block layers channels 1000 ''imagenet'' 1"
| "new_net ResNetV2EnasClass block layers channels =
     ResNetV2Enas block layers channels 1000 ''imagenet'' 1"

definition lookup :: "('k \<Rightarrow> 'v option) \<Rightarrow> 'k \<Rightarrow> error + 'v" where
  "lookup d k = (case d k of None \<Rightarrow> Inl KeyError | Some v \<Rightarrow> Inr v)"

definition get_resnet_enas :: "int \<Rightarrow> int \<Rightarrow> bool \<Rightarrow> resnet build" where
  "get_resnet_enas version num_layers pretrained =
     (case resnet_spec num_layers of
        None \<Rightarrow> lift (Inl InvalidConfiguration)
      | Some (block_type, layers, channels) \<Rightarrow>
          if \<not> (1 \<le> version \<and> version \<le> 2) then lift (Inl InvalidConfiguration)
          else
            bnd (lift (item resnet_net_versions (nat (version - 1)))) (\<lambda>resnet_class.
            bnd (lift (item resnet_block_versions (nat (version - 1)))) (\<lambda>blocks.
            bnd (lift (lookup blocks block_type)) (\<lambda>block_class.
            bnd (new_net resnet_class block_class layers channels) (\<lambda>net.
            if pretrained then lift (Inl UnsupportedOperation) else ret net)))))"

subsection \<open>Observations on blocks and networks\<close>

text \<open>\<^verbatim>\<open>self.downsample is not None\<close>.\<close>

fun has_downsample :: "block \<Rightarrow> bool" where
  "has_downsample (BasicV1 b) = (v1_downsample b \<noteq> None)"
| "has_downsample (BottleneckV1 b) = (bv1_downsample b \<noteq> None)"
| "has_downsample (BasicV2 b) = (v2_downsample b \<noteq> None)"
| "has_downsample (BottleneckV2 b) = (bv2_downsample b \<noteq> None)"

text \<open>
  The stride a block was built with. The basic blocks keep it as an attribute; the
  bottleneck blocks keep it only in their strided convolution.
\<close>

fun block_stride :: "block \<Rightarrow> int option" where
  "block_stride (BasicV1 b) = Some (v1_stride b)"
| "block_stride (BottleneckV1 b) =
     (case bv1_body b of QConv c # _ \<Rightarrow> Some (conv_strides c) | _ \<Rightarrow> None)"
| "block_stride (BasicV2 b) = Some (v2_stride b)"
| "block_stride (BottleneckV2 b) = Some (conv_strides (bv2_conv2 b))"

text \<open>The residual blocks among the layers of a network, in order.\<close>

fun blocks_of :: "net_layer list \<Rightarrow> block list" where
  "blocks_of [] = []"
| "blocks_of (Block b # ls) = b # blocks_of ls"
| "blocks_of (_ # ls) = blocks_of ls"

text \<open>The parameter sets a layer holds: those of a batchnorm, and convolution weights.\<close>

fun bn_ids :: "sublayer \<Rightarrow> nat set" where
  "bn_ids (BatchNorm _ _ i) = {i}"
| "bn_ids _ = {}"

fun conv_ids :: "sublayer \<Rightarrow> nat set" where
  "conv_ids (ActivatedConv c) = {pid (conv_params c)}"
| "conv_ids (QConv c) = {pid (conv_params c)}"
| "conv_ids _ = {}"

definition seq_bn_ids :: "sublayer list \<Rightarrow> nat set" where
  "seq_bn_ids seq = \<Union> (set (map bn_ids seq))"

definition seq_conv_ids :: "sublayer list \<Rightarrow> nat set" where
  "seq_conv_ids seq = \<Union> (set (map conv_ids seq))"

definition opt_ids :: "('a \<Rightarrow> nat set) \<Rightarrow> 'a option \<Rightarrow> nat set" where
  "opt_ids f x = (case x of None \<Rightarrow> {} | Some y \<Rightarrow> f y)"

definition v1_bn_ids :: "basic_v1 \<Rightarrow> nat set" where
  "v1_bn_ids b = seq_bn_ids (v1_body b) \<union> opt_ids seq_bn_ids (v1_downsample b)"

definition v1_conv_ids :: "basic_v1 \<Rightarrow> nat set" where
  "v1_conv_ids b = seq_conv_ids (v1_body b) \<union> opt_ids seq_conv_ids (v1_downsample b)"

definition v2_bn_ids :: "basic_v2 \<Rightarrow> nat set" where
  "v2_bn_ids b =
     bn_ids (v2_bn b) \<union> seq_bn_ids (v2_body b) \<union> opt_ids seq_bn_ids (v2_downsample b)"

definition v2_conv_ids :: "basic_v2 \<Rightarrow> nat set" where
  "v2_conv_ids b =
     seq_conv_ids (v2_body b) \<union> opt_ids seq_conv_ids (v2_downsample b)
       \<union> opt_ids (\<lambda>w. {pid w}) (v2_conv1_weights b)
       \<union> opt_ids (\<lambda>w. {pid w}) (v2_conv2_weights b)
       \<union> opt_ids (opt_ids (\<lambda>w. {pid w})) (v2_downsample_conv_weights b)"

definition bv1_bn_ids :: "bottleneck_v1 \<Rightarrow> nat set" where
  "bv1_bn_ids b = seq_bn_ids (bv1_body b) \<union> opt_ids seq_bn_ids (bv1_downsample b)"

definition bv1_conv_ids :: "bottleneck_v1 \<Rightarrow> nat set" where
  "bv1_conv_ids b = seq_conv_ids (bv1_body b) \<union> opt_ids seq_conv_ids (bv1_downsample b)"

definition bv2_bn_ids :: "bottleneck_v2 \<Rightarrow> nat set" where
  "bv2_bn_ids b = bn_ids (bv2_bn1 b) \<union> bn_ids (bv2_bn2 b) \<union> bn_ids (bv2_bn3 b)"

definition bv2_conv_ids :: "bottleneck_v2 \<Rightarrow> nat set" where
  "bv2_conv_ids b =
     {pid (conv_params (bv2_conv1 b)), pid (conv_params (bv2_conv2 b)),
      pid (conv_params (bv2_conv3 b))}
       \<union> opt_ids (\<lambda>c. {pid (conv_params c)}) (bv2_downsample b)"

text \<open>
  A block with the identities of its parameter sets forgotten: what was built, whatever
  had been allocated before.
\<close>

definition strip_params :: "params \<Rightarrow> params" where
  "strip_params w = w\<lparr>pid := 0\<rparr>"

definition strip_conv :: "qconv2d \<Rightarrow> qconv2d" where
  "strip_conv c = c\<lparr>conv_params := strip_params (conv_params c)\<rparr>"

fun strip_sublayer :: "sublayer \<Rightarrow> sublayer" where
  "strip_sublayer (BatchNorm sc eps i) = BatchNorm sc eps 0"
| "strip_sublayer (ActivatedConv c) = ActivatedConv (strip_conv c)"
| "strip_sublayer (QConv c) = QConv (strip_conv c)"
| "strip_sublayer (Activation a) = Activation a"

fun strip_block :: "block \<Rightarrow> block" where
  "strip_block (BasicV1 b) =
     BasicV1 (b\<lparr>v1_params := 0, v1_body := map strip_sublayer (v1_body b),
                v1_downsample := map_option (map strip_sublayer) (v1_downsample b)\<rparr>)"
| "strip_block (BottleneckV1 b) =
     BottleneckV1 (b\<lparr>bv1_params := 0,
                     bv1_conv1_weights := map_option strip_params (bv1_conv1_weights b),
                     bv1_conv2_weights := map_option strip_params (bv1_conv2_weights b),
                     bv1_conv3_weights := map_option strip_params (bv1_conv3_weights b),
                     bv1_downsample_conv_weights :=
                       map_option strip_params (bv1_downsample_conv_weights b),
                     bv1_body := map strip_sublayer (bv1_body b),
                     bv1_downsample := map_option (map strip_sublayer) (bv1_downsample b)\<rparr>)"
| "strip_block (BasicV2 b) =
     BasicV2 (b\<lparr>v2_params := 0, v2_bn := strip_sublayer (v2_bn b),
                v2_body := map strip_sublayer (v2_body b),
                v2_conv1_weights := map_option strip_params (v2_conv1_weights b),
                v2_conv2_weights := map_option strip_params (v2_conv2_weights b),
                v2_downsample := map_option (map strip_sublayer) (v2_downsample b),
                v2_downsample_conv_weights :=
                  map_option (map_option strip_params) (v2_downsample_conv_weights b)\<rparr>)"
| "strip_block (BottleneckV2 b) =
     BottleneckV2 (b\<lparr>bv2_params := 0,
                     bv2_conv1_weights := map_option strip_params (bv2_conv1_weights b),
                     bv2_conv2_weights := map_option strip_params (bv2_conv2_weights b),
                     bv2_conv3_weights := map_option strip_params (bv2_conv3_weights b),
                     bv2_downsample_conv_weights :=
                       map_option strip_params (bv2_downsample_conv_weights b),
                     bv2_bn1 := strip_sublayer (bv2_bn1 b),
                     bv2_conv1 := strip_conv (bv2_conv1 b),
                     bv2_bn2 := strip_sublayer (bv2_bn2 b),
                     bv2_conv2 := strip_conv (bv2_conv2 b),
                     bv2_bn3 := strip_sublayer (bv2_bn3 b),
                     bv2_conv3 := strip_conv (bv2_conv3 b),
                     bv2_downsample := map_option strip_conv (bv2_downsample b)\<rparr>)"

text \<open>
  A \<^verbatim>\<open>BasicBlockV1Enas\<close> of the given bit width that has its attributes and no layers
  (\<^verbatim>\<open>init=False\<close>).
\<close>

definition bare_v1 :: "int \<Rightarrow> basic_v1" where
  "bare_v1 bits = \<lparr>v1_params = 0, v1_channels = 64, v1_stride = 1, v1_in_channels = 64,
                   v1_bits = bits, v1_grad_cancel = 1, v1_body = [], v1_downsample = None\<rparr>"

text \<open>
  The attributes and layers of a \<^verbatim>\<open>BasicBlockV1Enas\<close> after \<^verbatim>\<open>_init\<close>, from its
  dictionary, its two body weights, the numbers of its two batchnorms, and the weight and
  batchnorm of the downsample branch if there is one.
\<close>

definition v1_block ::
  "nat \<Rightarrow> int \<Rightarrow> int \<Rightarrow> int \<Rightarrow> int \<Rightarrow> real \<Rightarrow> params \<Rightarrow> nat \<Rightarrow> params \<Rightarrow> nat
     \<Rightarrow> (params \<times> nat) option \<Rightarrow> basic_v1" where
  "v1_block d c st ic bits gc w1 i1 w2 i2 ds =
     \<lparr>v1_params = d, v1_channels = c, v1_stride = st, v1_in_channels = ic, v1_bits = bits,
      v1_grad_cancel = gc,
      v1_body =
        [ActivatedConv (conv_layer (block_config bits gc) c 3 st 1 ic None None w1),
         BatchNorm True None i1,
         ActivatedConv (conv_layer (block_config bits gc) c 3 1 1 c None None w2),
         BatchNorm True None i2],
      v1_downsample =
        (case ds of
           None \<Rightarrow> None
         | Some (dw, i3) \<Rightarrow>
             Some [ActivatedConv (conv_layer (block_config bits gc) c 1 st 0 ic None None dw),
                   BatchNorm True None i3])\<rparr>"

text \<open>The same for a \<^verbatim>\<open>BasicBlockV2Enas\<close>, with the three weight attributes it keeps.\<close>

definition v2_block ::
  "nat \<Rightarrow> int \<Rightarrow> int \<Rightarrow> int \<Rightarrow> int \<Rightarrow> real \<Rightarrow> nat \<Rightarrow> params \<Rightarrow> nat \<Rightarrow> params
     \<Rightarrow> params option \<Rightarrow> params option \<Rightarrow> params option \<Rightarrow> params option option
     \<Rightarrow> basic_v2" where
  "v2_block d c st ic bits gc i0 w1 i1 w2 ds cw1 cw2 dcw =
     \<lparr>v2_params = d, v2_channels = c, v2_stride = st, v2_bits = bits, v2_in_channels = ic,
      v2_grad_cancel = gc, v2_bn = BatchNorm True None i0,
      v2_body =
        [ActivatedConv (conv_layer (block_config bits gc) c 3 st 1 ic None None w1),
         BatchNorm True None i1,
         ActivatedConv (conv_layer (block_config bits gc) c 3 1 1 c None None w2)],
      v2_conv1_weights = cw1, v2_conv2_weights = cw2,
      v2_downsample =
        (case ds of
           None \<Rightarrow> None
         | Some dw \<Rightarrow>
             Some [ActivatedConv (conv_layer (block_config bits gc) c 1 st 0 ic None None dw)]),
      v2_downsample_conv_weights = dcw\<rparr>"

text \<open>
  The shape of one stage: a first block with the given stride and downsample flag, followed
  by blocks of stride 1 without a downsample branch.
\<close>

definition stage_shape :: "block list \<Rightarrow> int \<Rightarrow> bool \<Rightarrow> bool" where
  "stage_shape bs stride ds =
     (case bs of
        [] \<Rightarrow> False
      | b # rest \<Rightarrow>
          has_downsample b = ds \<and> block_stride b = Some stride \<and>
          list_all (\<lambda>b. \<not> has_downsample b \<and> block_stride b = Some 1) rest)"

text \<open>
  The channels and input channels a block was built with. The basic blocks keep them as
  attributes; a bottleneck block keeps them only in its last convolution and in its
  downsample convolution, so its input channels are known only when it has that branch.
\<close>

fun block_channels :: "block \<Rightarrow> int option" where
  "block_channels (BasicV1 b) = Some (v1_channels b)"
| "block_channels (BottleneckV1 b) =
     (case item (bv1_body b) 6 of Inr (QConv c) \<Rightarrow> Some (conv_channels c) | _ \<Rightarrow> None)"
| "block_channels (BasicV2 b) = Some (v2_channels b)"
| "block_channels (BottleneckV2 b) = Some (conv_channels (bv2_conv3 b))"

fun block_in_channels :: "block \<Rightarrow> int option" where
  "block_in_channels (BasicV1 b) = Some (v1_in_channels b)"
| "block_in_channels (BottleneckV1 b) =
     (case bv1_downsample b of Some (QConv c # _) \<Rightarrow> Some (conv_in_channels c) | _ \<Rightarrow> None)"
| "block_in_channels (BasicV2 b) = Some (v2_in_channels b)"
| "block_in_channels (BottleneckV2 b) = map_option conv_in_channels (bv2_downsample b)"

text \<open>
  The blocks of one stage as \<^verbatim>\<open>_make_layer(block, num_layers, channels, stride,
  stage_index, in_channels)\<close> is to build them: a first block of the stage's channels, stride
  and input channels, with a downsample branch when the two channel counts differ, followed
  by \<^verbatim>\<open>num_layers - 1\<close> blocks of stride 1 from the stage's channels to the same
  channels, without a downsample branch. Only the basic blocks record all four values; the
  bottleneck constructors return no block to observe.
\<close>

definition is_block :: "int \<Rightarrow> int \<Rightarrow> bool \<Rightarrow> int \<Rightarrow> block \<Rightarrow> bool" where
  "is_block channels stride downsample in_channels b =
     (block_channels b = Some channels \<and> block_stride b = Some stride \<and>
      has_downsample b = downsample \<and> block_in_channels b = Some in_channels)"

definition stage_blocks :: "block list \<Rightarrow> int \<Rightarrow> int \<Rightarrow> int \<Rightarrow> int \<Rightarrow> bool" where
  "stage_blocks bs num_layers channels stride in_channels =
     (case bs of
        [] \<Rightarrow> False
      | b # rest \<Rightarrow>
          is_block channels stride (channels \<noteq> in_channels) in_channels b \<and>
          length rest = nat (num_layers - 1) \<and>
          list_all (is_block channels 1 False channels) rest)"

text \<open>The outcome of a construction, seen through \<open>f\<close>, without the allocation count.\<close>

definition outcome :: "('a \<Rightarrow> 'b) \<Rightarrow> 'a build \<Rightarrow> nat \<Rightarrow> error + 'b" where
  "outcome f m s = (case m s of Inl e \<Rightarrow> Inl e | Inr (x, s') \<Rightarrow> Inr (f x))"


section \<open>Properties\<close>


subsection \<open>Evaluating the construction monad\<close>

lemma bnd_Inl: "m s = Inl e \<Longrightarrow> bnd m f s = Inl e"
  by (simp add: bnd_def)

lemma bnd_Inr: "m s = Inr (x, s') \<Longrightarrow> bnd m f s = f x s'"
  by (simp add: bnd_def)

lemma bnd_ret: "bnd (ret x) f s = f x s"
  by (simp add: bnd_def ret_def)

lemma bnd_fresh: "bnd fresh f s = f s (Suc s)"
  by (simp add: bnd_def fresh_def)

lemma bnd_lift_Inr: "bnd (lift (Inr x)) f s = f x s"
  by (simp add: bnd_def lift_def)

lemma bnd_lift_Inl: "bnd (lift (Inl e)) f s = Inl e"
  by (simp add: bnd_def lift_def)

lemma lift_Inl: "lift (Inl e) s = Inl e"
  by (simp add: lift_def)

lemma new_BatchNorm_eq: "new_BatchNorm sc eps s = Inr (BatchNorm sc eps s, Suc s)"
  by (simp add: new_BatchNorm_def bnd_fresh ret_def)

lemma bnd_new_BatchNorm: "bnd (new_BatchNorm sc eps) f s = f (BatchNorm sc eps s) (Suc s)"
  by (simp add: bnd_Inr [OF new_BatchNorm_eq])

subsection \<open>The latency model\<close>

text \<open>
  C5: for every block variant, \<^verbatim>\<open>latency_function\<close> depends on the bit width of the block
  alone: two calls with different measured latencies return the same value, which is 3 when
  the bit width is 32 and \<open>3 * (0.25 + 0.75 * bits / 32)\<close> for every other bit width.
\<close>

theorem latency_function_bits_only:
  "latency_function b m1 = latency_function b m2 \<and>
   latency_function b m =
     (if block_bits b = 32 then 3 else 3 * (0.25 + 0.75 * real_of_int (block_bits b) / 32))"
  by (cases b)
    (simp_all add: BasicBlockV1Enas_latency_function_def BottleneckV1Enas_latency_function_def
       BasicBlockV2Enas_latency_function_def BottleneckV2Enas_latency_function_def)

text \<open>
  C4 as the specification states it, at a block of bit width 1 and a measured latency of 0:
  the result is not 2.30625.
\<close>

theorem latency_function_binary_counterexample:
  "block_bits (BasicV1 (bare_v1 1)) = 1 \<and>
   latency_function (BasicV1 (bare_v1 1)) 0 \<noteq> 2.30625"
  by (simp add: bare_v1_def BasicBlockV1Enas_latency_function_def)

text \<open>
  C4, amended: for every block and every measured latency, \<^verbatim>\<open>latency_function\<close> returns
  exactly 3 when the bit width is 32 and exactly \<open>3 * (0.25 + 0.75 / 32) = 0.8203125\<close> when
  the bit width is 1.
\<close>

theorem latency_function_full_and_binary:
  "(block_bits b = 32 \<longrightarrow> latency_function b m = 3) \<and>
   (block_bits b = 1 \<longrightarrow> latency_function b m = 0.8203125)"
  by (cases b)
    (simp_all add: BasicBlockV1Enas_latency_function_def BottleneckV1Enas_latency_function_def
       BasicBlockV2Enas_latency_function_def BottleneckV2Enas_latency_function_def)

theorem latency_function_full_and_binary_witness:
  "latency_function (BasicV1 (bare_v1 32)) 7 = 3 \<and>
   latency_function (BasicV1 (bare_v1 1)) 7 = 0.8203125"
  using latency_function_full_and_binary [of "BasicV1 (bare_v1 32)" 7]
    latency_function_full_and_binary [of "BasicV1 (bare_v1 1)" 7]
  by (simp add: bare_v1_def)

subsection \<open>The convolution layers and the bottleneck constructors\<close>

lemma conv3x3_missing:
  "conv3x3 cfg [a, b, c] [] given s = Inl (TypeError ''missing required positional argument'')"
  by (simp add: conv3x3_def bind_args_def lift_def)

lemma conv3x3_multiple:
  "conv3x3 cfg [a, b, c] [(''bits'', x)] given s = Inl (TypeError ''got multiple values for argument'')"
  by (simp add: conv3x3_def bind_args_def lift_def)

lemma cfg_bits_block_config: "cfg_bits (block_config bits gc) = bits"
  by (simp add: block_config_def)

lemma QConv2D_None:
  "QConv2D cfg c k st pad ic ub bits None s =
     Inr (conv_layer cfg c k st pad ic ub bits
            \<lparr>pid = s, shape = [c, st, case bits of None \<Rightarrow> cfg_bits cfg | Some b \<Rightarrow> b]\<rparr>,
          Suc s)"
  by (simp add: QConv2D_def conv_weight_def bnd_def fresh_def ret_def)

lemma QConv2D_Some:
  "QConv2D cfg c k st pad ic ub bits (Some w) s =
     (if shape w = [c, st, case bits of None \<Rightarrow> cfg_bits cfg | Some b \<Rightarrow> b]
      then Inr (conv_layer cfg c k st pad ic ub bits w, s)
      else Inl ShapeMismatch)"
  by (simp add: QConv2D_def conv_weight_def bnd_def lift_def ret_def)

lemma HybridBlock_init_None: "HybridBlock_init None s = Inr (s, Suc s)"
  by (simp add: HybridBlock_init_def fresh_def)

lemma HybridBlock_init_Some: "HybridBlock_init (Some d) s = Inr (d, s)"
  by (simp add: HybridBlock_init_def ret_def)

lemma bnd_HybridBlock_init_None: "bnd (HybridBlock_init None) f s = f s (Suc s)"
  by (simp add: bnd_Inr [OF HybridBlock_init_None])

lemma bnd_HybridBlock_init_Some: "bnd (HybridBlock_init (Some d)) f s = f d s"
  by (simp add: bnd_Inr [OF HybridBlock_init_Some])

lemma bnd_isl_later: "(\<And>x s'. isl (f x s')) \<Longrightarrow> isl (bnd m f s)"
  by (simp add: bnd_def split: sum.split prod.split)

lemma bnd_isl_now: "isl (m s) \<Longrightarrow> isl (bnd m f s)"
  by (auto simp: bnd_def isl_def)

lemma BottleneckV1Enas_with_fails:
  assumes "\<And>w t. isl (second_conv (block_config bits gc) w t)"
  shows "isl (BottleneckV1Enas_with second_conv channels stride downsample in_channels bits gc
                partner s)"
  unfolding BottleneckV1Enas_with_def Let_def
  apply (rule bnd_isl_later)
  apply (rule bnd_isl_later)
  apply (rule bnd_isl_later)
  apply (rule bnd_isl_now)
  apply (rule assms)
  done

lemma BottleneckV2Enas_with_fails:
  assumes "\<And>w t. isl (second_conv (block_config bits gc) w t)"
  shows "isl (BottleneckV2Enas_with second_conv channels stride downsample in_channels bits gc
                partner s)"
  unfolding BottleneckV2Enas_with_def Let_def
  apply (rule bnd_isl_later)
  apply (rule bnd_isl_later)
  apply (rule bnd_isl_later)
  apply (rule bnd_isl_later)
  apply (rule bnd_isl_now)
  apply (rule assms)
  done

lemma BottleneckV1Enas_fails:
  "isl (BottleneckV1Enas channels stride downsample in_channels bits gc partner s)"
  unfolding BottleneckV1Enas_def
  by (rule BottleneckV1Enas_with_fails) (simp add: conv3x3_missing)

lemma BottleneckV1Enas_None:
  "BottleneckV1Enas channels stride downsample in_channels bits gc None s =
     Inl (TypeError ''missing required positional argument'')"
  unfolding BottleneckV1Enas_def BottleneckV1Enas_with_def Let_def
  by (simp add: bnd_def HybridBlock_init_None QConv2D_None new_BatchNorm_eq conv3x3_missing)

lemma BottleneckV2Enas_fails:
  "isl (BottleneckV2Enas channels stride downsample in_channels bits gc partner s)"
  unfolding BottleneckV2Enas_def
  by (rule BottleneckV2Enas_with_fails) (simp add: conv3x3_multiple)

lemma BottleneckV2Enas_None:
  "BottleneckV2Enas channels stride downsample in_channels bits gc None s =
     Inl (TypeError ''got multiple values for argument'')"
  unfolding BottleneckV2Enas_def BottleneckV2Enas_with_def Let_def
  by (simp add: bnd_def HybridBlock_init_None QConv2D_None new_BatchNorm_eq conv3x3_multiple)

lemma BottleneckV2Enas_with_downsample_fails:
  "isl (BottleneckV2Enas_with second_conv channels stride True in_channels bits gc partner s)"
  unfolding BottleneckV2Enas_with_def Let_def
  by (cases partner)
    (simp_all add: bnd_def HybridBlock_init_None HybridBlock_init_Some new_BatchNorm_eq
      read_downsample_weights_def lift_def split: sum.split prod.split)

lemma BottleneckV2Enas_with_reaches_read:
  "second_conv (block_config bits gc) None (Suc (Suc (Suc (Suc s)))) = Inr (c2, s') \<Longrightarrow>
   BottleneckV2Enas_with second_conv channels stride True in_channels bits gc None s =
     Inl (AttributeError ''downsample_weights'')"
  unfolding BottleneckV2Enas_with_def Let_def
  by (simp add: bnd_def HybridBlock_init_None new_BatchNorm_eq QConv2D_None
      read_downsample_weights_def lift_def)

lemma BottleneckV2Enas_with_bound_call:
  "BottleneckV2Enas_with
     (\<lambda>cfg w. QConv2D cfg (channels div 4) 3 stride 1 (channels div 4) None (Some bits) w)
     channels stride True in_channels bits gc None s
     = Inl (AttributeError ''downsample_weights'')"
  by (rule BottleneckV2Enas_with_reaches_read) (rule QConv2D_None)

lemma make_layer_BottleneckV1:
  "make_layer self BottleneckV1EnasClass n c st idx ic s =
     Inl (TypeError ''missing required positional argument'')"
  by (simp add: make_layer_def bnd_def BottleneckV1Enas_None)

lemma make_layer_BottleneckV2:
  "make_layer self BottleneckV2EnasClass n c st idx ic s =
     Inl (TypeError ''got multiple values for argument'')"
  by (simp add: make_layer_def bnd_def BottleneckV2Enas_None)

lemma resnet_spec_50: "resnet_spec 50 = Some (''bottle_neck'', [3, 4, 6, 3], [64, 256, 512, 1024, 2048])"
  by (simp add: resnet_spec_def)
lemma resnet_spec_101: "resnet_spec 101 = Some (''bottle_neck'', [3, 4, 23, 3], [64, 256, 512, 1024, 2048])"
  by (simp add: resnet_spec_def)
lemma resnet_spec_152: "resnet_spec 152 = Some (''bottle_neck'', [3, 8, 36, 3], [64, 256, 512, 1024, 2048])"
  by (simp add: resnet_spec_def)

lemma ResNetV1Enas_bottleneck:
  "length layers = 4 \<Longrightarrow> length channels = 5 \<Longrightarrow>
   ResNetV1Enas BottleneckV1EnasClass layers channels classes variant gc s =
     Inl (TypeError ''missing required positional argument'')"
  apply (cases layers; simp)
  apply (cases channels; simp)
  apply (simp add: ResNetV1Enas_def ResNetEnas_def bnd_def lift_def last_item_def fresh_def ret_def
      new_BatchNorm_eq item_def add_initial_layers_def make_layer_BottleneckV1)
  done

lemma get_resnet_enas_1_50:
  "get_resnet_enas 1 50 pretrained s = Inl (TypeError ''missing required positional argument'')"
  by (simp add: get_resnet_enas_def resnet_spec_50 resnet_net_versions_def resnet_block_versions_def
     bnd_def lift_def item_def lookup_def ResNetV1Enas_bottleneck)

lemma ResNetV2Enas_bottleneck:
  "length layers = 4 \<Longrightarrow> length channels = 5 \<Longrightarrow>
   ResNetV2Enas BottleneckV2EnasClass layers channels classes variant gc s =
     Inl (TypeError ''got multiple values for argument'')"
  apply (cases layers; simp)
  apply (cases channels; simp)
  apply (simp add: ResNetV2Enas_def ResNetEnas_def bnd_def lift_def last_item_def fresh_def ret_def
      new_BatchNorm_eq item_def add_initial_layers_def make_layer_BottleneckV2)
  done

lemma get_resnet_enas_2_bottleneck:
  "resnet_spec d = Some (''bottle_neck'', layers, channels) \<Longrightarrow>
   length layers = 4 \<Longrightarrow> length channels = 5 \<Longrightarrow>
   get_resnet_enas 2 d pretrained s = Inl (TypeError ''got multiple values for argument'')"
  by (simp add: get_resnet_enas_def resnet_net_versions_def resnet_block_versions_def
     bnd_def lift_def item_def lookup_def ResNetV2Enas_bottleneck)

subsection \<open>The basic block constructors, evaluated\<close>

lemma activated_conv_None:
  "activated_conv cfg c k st pad ic None s =
     Inr (ActivatedConv (conv_layer cfg c k st pad ic None None
                           \<lparr>pid = s, shape = [c, st, cfg_bits cfg]\<rparr>),
          Suc s)"
  by (simp add: activated_conv_def bnd_Inr [OF QConv2D_None] ret_def)

lemma activated_conv_Some:
  "activated_conv cfg c k st pad ic (Some w) s =
     (if shape w = [c, st, cfg_bits cfg]
      then Inr (ActivatedConv (conv_layer cfg c k st pad ic None None w), s)
      else Inl ShapeMismatch)"
  by (simp add: activated_conv_def bnd_def QConv2D_Some ret_def)

lemma bnd_activated_conv_None:
  "bnd (activated_conv cfg c k st pad ic None) f s =
     f (ActivatedConv (conv_layer cfg c k st pad ic None None
                         \<lparr>pid = s, shape = [c, st, cfg_bits cfg]\<rparr>))
       (Suc s)"
  by (simp add: bnd_Inr [OF activated_conv_None])

lemma bnd_activated_conv_Some:
  "bnd (activated_conv cfg c k st pad ic (Some w)) f s =
     (if shape w = [c, st, cfg_bits cfg]
      then f (ActivatedConv (conv_layer cfg c k st pad ic None None w)) s
      else Inl ShapeMismatch)"
  by (simp add: bnd_def activated_conv_Some)

lemma conv_params_conv_layer: "conv_params (conv_layer cfg c k st pad ic ub bits w) = w"
  by (simp add: conv_layer_def)

lemma qconv_params_at_0: "qconv_params_at (ActivatedConv c # ls) 0 = Inr (conv_params c)"
  by (simp add: qconv_params_at_def item_def qconv_def)

lemma qconv_params_at_2:
  "qconv_params_at (l0 # l1 # ActivatedConv c # ls) 2 = Inr (conv_params c)"
  by (simp add: qconv_params_at_def item_def qconv_def)

lemma bnd_assoc: "bnd (bnd m f) g = bnd m (\<lambda>x. bnd (f x) g)"
  by (rule ext) (simp add: bnd_def split: sum.split)

lemma qconv_params_at_Suc2:
  "qconv_params_at (l0 # l1 # ActivatedConv c # ls) (Suc (Suc 0)) = Inr (conv_params c)"
  by (simp add: qconv_params_at_def item_def qconv_def)

lemma BasicBlockV1Enas_None:
  "BasicBlockV1Enas c st ds ic True bits gc None s =
     Inr (v1_block s c st ic bits gc \<lparr>pid = s + 1, shape = [c, st, bits]\<rparr> (s + 2)
            \<lparr>pid = s + 3, shape = [c, 1, bits]\<rparr> (s + 4)
            (if ds then Some (\<lparr>pid = s + 5, shape = [c, st, bits]\<rparr>, s + 6) else None),
          if ds then s + 7 else s + 5)"
  by (simp add: BasicBlockV1Enas_def BasicBlockV1Enas_init_def from_partner_def
      bnd_HybridBlock_init_None cfg_bits_block_config
      bnd_lift_Inr Let_def bnd_activated_conv_None bnd_new_BatchNorm ret_def v1_block_def
      eval_nat_numeral)

lemma BasicBlockV1Enas_Some:
  "BasicBlockV1Enas c st ds ic True bits gc (Some p) s =
     (case qconv_params_at (v1_body p) 0 of Inl e \<Rightarrow> Inl e | Inr w1 \<Rightarrow>
      case qconv_params_at (v1_body p) 2 of Inl e \<Rightarrow> Inl e | Inr w2 \<Rightarrow>
      if ds
      then (case optional_qconv_params_at (v1_downsample p) 0 of Inl e \<Rightarrow> Inl e | Inr dw \<Rightarrow>
              if shape w1 = [c, st, bits] \<and> shape w2 = [c, 1, bits] \<and> shape dw = [c, st, bits]
              then Inr (v1_block (v1_params p) c st ic bits gc w1 s w2 (s + 1)
                          (Some (dw, s + 2)), s + 3)
              else Inl ShapeMismatch)
      else if shape w1 = [c, st, bits] \<and> shape w2 = [c, 1, bits]
           then Inr (v1_block (v1_params p) c st ic bits gc w1 s w2 (s + 1) None, s + 2)
           else Inl ShapeMismatch)"
  by (simp add: BasicBlockV1Enas_def BasicBlockV1Enas_init_def from_partner_def some_of_def
      bnd_HybridBlock_init_Some cfg_bits_block_config
      bnd_lift_Inr bnd_lift_Inl Let_def bnd_activated_conv_Some bnd_new_BatchNorm ret_def v1_block_def
      eval_nat_numeral split: sum.split)


lemma BasicBlockV2Enas_None:
  "BasicBlockV2Enas c st ds ic True bits gc None s =
     Inr (v2_block s c st ic bits gc (s + 1) \<lparr>pid = s + 2, shape = [c, st, bits]\<rparr> (s + 3)
            \<lparr>pid = s + 4, shape = [c, 1, bits]\<rparr>
            (if ds then Some \<lparr>pid = s + 5, shape = [c, st, bits]\<rparr> else None)
            (Some \<lparr>pid = s + 2, shape = [c, st, bits]\<rparr>)
            (Some \<lparr>pid = s + 4, shape = [c, 1, bits]\<rparr>)
            (if ds then Some (Some \<lparr>pid = s + 5, shape = [c, st, bits]\<rparr>) else None),
          if ds then s + 6 else s + 5)"
  by (simp add: BasicBlockV2Enas_def BasicBlockV2Enas_init_def from_partner_def
      bnd_HybridBlock_init_None cfg_bits_block_config
      read_downsample_conv_weights_def truthy_def optional_qconv_params_at_def
      qconv_params_at_0 qconv_params_at_2 qconv_params_at_Suc2 conv_params_conv_layer bnd_assoc
      bnd_lift_Inr Let_def bnd_activated_conv_None bnd_new_BatchNorm bnd_ret ret_def v2_block_def
      eval_nat_numeral)

lemma BasicBlockV2Enas_Some:
  "v2_conv1_weights p = Some w1 \<Longrightarrow> v2_conv2_weights p = Some w2 \<Longrightarrow>
   BasicBlockV2Enas c st ds ic True bits gc (Some p) s =
     (if ds
      then (case v2_downsample_conv_weights p of
              None \<Rightarrow> Inl (AttributeError ''downsample_conv_weights'')
            | Some None \<Rightarrow>
                if shape w1 = [c, st, bits] \<and> shape w2 = [c, 1, bits]
                then Inr (v2_block (v2_params p) c st ic bits gc s w1 (s + 1) w2
                            (Some \<lparr>pid = s + 2, shape = [c, st, bits]\<rparr>)
                            (Some w1) (Some w2) (Some None), s + 3)
                else Inl ShapeMismatch
            | Some (Some dw) \<Rightarrow>
                if shape w1 = [c, st, bits] \<and> shape w2 = [c, 1, bits] \<and> shape dw = [c, st, bits]
                then Inr (v2_block (v2_params p) c st ic bits gc s w1 (s + 1) w2 (Some dw)
                            (Some w1) (Some w2) (Some (Some dw)), s + 2)
                else Inl ShapeMismatch)
      else if shape w1 = [c, st, bits] \<and> shape w2 = [c, 1, bits]
           then Inr (v2_block (v2_params p) c st ic bits gc s w1 (s + 1) w2 None
                       (Some w1) (Some w2) None, s + 2)
           else Inl ShapeMismatch)"
  by (simp add: BasicBlockV2Enas_def BasicBlockV2Enas_init_def from_partner_def some_of_def
      bnd_HybridBlock_init_Some cfg_bits_block_config
      read_downsample_conv_weights_def bnd_assoc
      bnd_lift_Inr bnd_lift_Inl Let_def bnd_activated_conv_Some bnd_activated_conv_None
      bnd_new_BatchNorm bnd_ret ret_def v2_block_def
      eval_nat_numeral split: option.split)

lemma qconv_params_at_v1_block_0:
  "qconv_params_at (v1_body (v1_block d c st ic bits gc w1 i1 w2 i2 ds)) 0 = Inr w1"
  by (simp add: v1_block_def qconv_params_at_0 conv_params_conv_layer)

lemma qconv_params_at_v1_block_2:
  "qconv_params_at (v1_body (v1_block d c st ic bits gc w1 i1 w2 i2 ds)) 2 = Inr w2"
  by (simp add: v1_block_def qconv_params_at_2 conv_params_conv_layer)

lemma optional_qconv_params_at_v1_block:
  "optional_qconv_params_at (v1_downsample (v1_block d c st ic bits gc w1 i1 w2 i2 ds)) 0 =
     (case ds of None \<Rightarrow> Inl (TypeError ''NoneType object is not subscriptable'')
      | Some (dw, i3) \<Rightarrow> Inr dw)"
  by (simp add: v1_block_def optional_qconv_params_at_def qconv_params_at_0 conv_params_conv_layer
      split: option.split)

lemma v2_block_weights:
  "v2_conv1_weights (v2_block d c st ic bits gc i0 w1 i1 w2 ds cw1 cw2 dcw) = cw1"
  "v2_conv2_weights (v2_block d c st ic bits gc i0 w1 i1 w2 ds cw1 cw2 dcw) = cw2"
  "v2_downsample_conv_weights (v2_block d c st ic bits gc i0 w1 i1 w2 ds cw1 cw2 dcw) = dcw"
  by (simp_all add: v2_block_def)

lemma v1_block_params: "v1_params (v1_block d c st ic bits gc w1 i1 w2 i2 ds) = d"
  by (simp add: v1_block_def)

lemma v2_block_params: "v2_params (v2_block d c st ic bits gc i0 w1 i1 w2 ds cw1 cw2 dcw) = d"
  by (simp add: v2_block_def)

lemma qconv_params_at_v2_block_0:
  "qconv_params_at (v2_body (v2_block d c st ic bits gc i0 w1 i1 w2 ds cw1 cw2 dcw)) 0 = Inr w1"
  by (simp add: v2_block_def qconv_params_at_0 conv_params_conv_layer)

lemma qconv_params_at_v2_block_2:
  "qconv_params_at (v2_body (v2_block d c st ic bits gc i0 w1 i1 w2 ds cw1 cw2 dcw)) 2 = Inr w2"
  by (simp add: v2_block_def qconv_params_at_2 conv_params_conv_layer)

lemma optional_qconv_params_at_v2_block:
  "optional_qconv_params_at
     (v2_downsample (v2_block d c st ic bits gc i0 w1 i1 w2 ds cw1 cw2 dcw)) 0 =
     (case ds of None \<Rightarrow> Inl (TypeError ''NoneType object is not subscriptable'')
      | Some dw \<Rightarrow> Inr dw)"
  by (simp add: v2_block_def optional_qconv_params_at_def qconv_params_at_0 conv_params_conv_layer
      split: option.split)

lemma v1_block_bn_ids:
  "v1_bn_ids (v1_block d c st ic bits gc w1 i1 w2 i2 ds) =
     {i1, i2} \<union> (case ds of None \<Rightarrow> {} | Some (dw, i3) \<Rightarrow> {i3})"
  by (auto simp: v1_bn_ids_def v1_block_def seq_bn_ids_def opt_ids_def split: option.splits)

lemma v1_block_conv_ids:
  "v1_conv_ids (v1_block d c st ic bits gc w1 i1 w2 i2 ds) =
     {pid w1, pid w2} \<union> (case ds of None \<Rightarrow> {} | Some (dw, i3) \<Rightarrow> {pid dw})"
  by (auto simp: v1_conv_ids_def v1_block_def seq_conv_ids_def opt_ids_def conv_params_conv_layer
      split: option.splits)

lemma v2_block_bn_ids:
  "v2_bn_ids (v2_block d c st ic bits gc i0 w1 i1 w2 ds cw1 cw2 dcw) = {i0, i1}"
  by (auto simp: v2_bn_ids_def v2_block_def seq_bn_ids_def opt_ids_def split: option.splits)

lemma v2_block_conv_ids:
  "v2_conv_ids (v2_block d c st ic bits gc i0 w1 i1 w2 ds cw1 cw2 dcw) =
     {pid w1, pid w2} \<union> opt_ids (\<lambda>w. {pid w}) ds \<union> opt_ids (\<lambda>w. {pid w}) cw1
       \<union> opt_ids (\<lambda>w. {pid w}) cw2 \<union> opt_ids (opt_ids (\<lambda>w. {pid w})) dcw"
  by (auto simp: v2_conv_ids_def v2_block_def seq_conv_ids_def opt_ids_def conv_params_conv_layer
      split: option.splits)

lemma v1_partner_built:
  assumes "ds \<longrightarrow> pds"
  shows "BasicBlockV1Enas c st ds ic True bits gc
           (Some (v1_block d c st pic bits pgc \<lparr>pid = a1, shape = [c, st, bits]\<rparr> i1
                    \<lparr>pid = a2, shape = [c, 1, bits]\<rparr> i2
                    (if pds then Some (\<lparr>pid = a3, shape = [c, st, bits]\<rparr>, i3) else None))) s =
         Inr (v1_block d c st ic bits gc \<lparr>pid = a1, shape = [c, st, bits]\<rparr> s
                \<lparr>pid = a2, shape = [c, 1, bits]\<rparr> (s + 1)
                (if ds then Some (\<lparr>pid = a3, shape = [c, st, bits]\<rparr>, s + 2) else None),
              if ds then s + 3 else s + 2)"
  using assms
  by (auto simp add: BasicBlockV1Enas_Some qconv_params_at_v1_block_0 qconv_params_at_v1_block_2
      optional_qconv_params_at_v1_block v1_block_params)


lemma v2_partner_built:
  assumes "ds \<longrightarrow> pds"
  shows "BasicBlockV2Enas c st ds ic True bits gc
           (Some (v2_block d c st pic bits pgc i0 \<lparr>pid = a1, shape = [c, st, bits]\<rparr> i1
                    \<lparr>pid = a2, shape = [c, 1, bits]\<rparr>
                    (if pds then Some \<lparr>pid = a3, shape = [c, st, bits]\<rparr> else None)
                    (Some \<lparr>pid = a1, shape = [c, st, bits]\<rparr>)
                    (Some \<lparr>pid = a2, shape = [c, 1, bits]\<rparr>)
                    (if pds then Some (Some \<lparr>pid = a3, shape = [c, st, bits]\<rparr>) else None))) s =
         Inr (v2_block d c st ic bits gc s \<lparr>pid = a1, shape = [c, st, bits]\<rparr> (s + 1)
                \<lparr>pid = a2, shape = [c, 1, bits]\<rparr>
                (if ds then Some \<lparr>pid = a3, shape = [c, st, bits]\<rparr> else None)
                (Some \<lparr>pid = a1, shape = [c, st, bits]\<rparr>)
                (Some \<lparr>pid = a2, shape = [c, 1, bits]\<rparr>)
                (if ds then Some (Some \<lparr>pid = a3, shape = [c, st, bits]\<rparr>) else None),
              s + 2)"
  using assms
  by (auto simp add: BasicBlockV2Enas_Some [OF v2_block_weights(1) v2_block_weights(2)]
      v2_block_weights(3) v2_block_params)


subsection \<open>The bottleneck constructors with a well-formed call of \<^verbatim>\<open>_conv3x3\<close>\<close>

lemma conv3x3_bound:
  "conv3x3 cfg [b, c, st, ic] [] given = QConv2D cfg c 3 st 1 ic None (Some b) given"
  by (simp add: conv3x3_def bind_args_def)

lemma bnd_QConv2D_None:
  "bnd (QConv2D cfg c k st pad ic ub bits None) f s =
     f (conv_layer cfg c k st pad ic ub bits
          \<lparr>pid = s, shape = [c, st, case bits of None \<Rightarrow> cfg_bits cfg | Some b \<Rightarrow> b]\<rparr>)
       (Suc s)"
  by (simp add: bnd_Inr [OF QConv2D_None])

lemma bnd_QConv2D_Some:
  "bnd (QConv2D cfg c k st pad ic ub bits (Some w)) f s =
     (if shape w = [c, st, case bits of None \<Rightarrow> cfg_bits cfg | Some b \<Rightarrow> b]
      then f (conv_layer cfg c k st pad ic ub bits w) s
      else Inl ShapeMismatch)"
  by (simp add: bnd_def QConv2D_Some)

lemma params_at_simps:
  "params_at (QConv c # ls) 0 = Inr (conv_params c)"
  "params_at (l0 # l1 # l2 # QConv c # ls) 3 = Inr (conv_params c)"
  "params_at (l0 # l1 # l2 # l3 # l4 # l5 # QConv c # ls) 6 = Inr (conv_params c)"
  by (simp_all add: params_at_def item_def layer_params_def)

lemma params_at_Suc_simps:
  "params_at (l0 # l1 # l2 # QConv c # ls) (Suc (Suc (Suc 0))) = Inr (conv_params c)"
  "params_at (l0 # l1 # l2 # l3 # l4 # l5 # QConv c # ls) (Suc (Suc (Suc (Suc (Suc (Suc 0))))))
     = Inr (conv_params c)"
  by (simp_all add: params_at_def item_def layer_params_def)

lemma BottleneckV1Enas_with_None:
  "BottleneckV1Enas_with (\<lambda>cfg w. conv3x3 cfg [bits, c div 4, 1, c div 4] [] w)
       c st False ic bits gc None s =
     Inr (\<lparr>bv1_params = s, bv1_bits = bits,
           bv1_conv1_weights = Some \<lparr>pid = s + 1, shape = [c div 4, st, bits]\<rparr>,
           bv1_conv2_weights = Some \<lparr>pid = s + 3, shape = [c div 4, 1, bits]\<rparr>,
           bv1_conv3_weights = Some \<lparr>pid = s + 5, shape = [c, 1, bits]\<rparr>,
           bv1_downsample_conv_weights = None,
           bv1_body =
             [QConv (conv_layer (block_config bits gc) (c div 4) 1 st 0 0 None None
                       \<lparr>pid = s + 1, shape = [c div 4, st, bits]\<rparr>),
              BatchNorm True None (s + 2), Activation ''relu'',
              QConv (conv_layer (block_config bits gc) (c div 4) 3 1 1 (c div 4) None (Some bits)
                       \<lparr>pid = s + 3, shape = [c div 4, 1, bits]\<rparr>),
              BatchNorm True None (s + 4), Activation ''relu'',
              QConv (conv_layer (block_config bits gc) c 1 1 0 0 None None
                       \<lparr>pid = s + 5, shape = [c, 1, bits]\<rparr>),
              BatchNorm True None (s + 6)],
           bv1_downsample = None\<rparr>, s + 7)"
  unfolding BottleneckV1Enas_with_def Let_def
  by (simp add: bnd_HybridBlock_init_None bnd_QConv2D_None bnd_new_BatchNorm conv3x3_bound
      cfg_bits_block_config bnd_ret bnd_lift_Inr params_at_simps params_at_Suc_simps
      conv_params_conv_layer ret_def
      eval_nat_numeral)

lemma BottleneckV1Enas_with_Some:
  assumes "bv1_conv1_weights p = Some w1" and "bv1_conv2_weights p = Some w2"
      and "bv1_conv3_weights p = Some w3"
  shows "BottleneckV1Enas_with (\<lambda>cfg w. conv3x3 cfg [bits, c div 4, 1, c div 4] [] w)
       c st False ic bits gc (Some p) s =
     (if shape w1 = [c div 4, st, bits] \<and> shape w2 = [c div 4, 1, bits] \<and>
         shape w3 = [c, 1, bits]
      then Inr (\<lparr>bv1_params = bv1_params p, bv1_bits = bits,
           bv1_conv1_weights = Some w1, bv1_conv2_weights = Some w2,
           bv1_conv3_weights = Some w3, bv1_downsample_conv_weights = None,
           bv1_body =
             [QConv (conv_layer (block_config bits gc) (c div 4) 1 st 0 0 None None w1),
              BatchNorm True None s, Activation ''relu'',
              QConv (conv_layer (block_config bits gc) (c div 4) 3 1 1 (c div 4) None (Some bits)
                       w2),
              BatchNorm True None (s + 1), Activation ''relu'',
              QConv (conv_layer (block_config bits gc) c 1 1 0 0 None None w3),
              BatchNorm True None (s + 2)],
           bv1_downsample = None\<rparr>, s + 3)
      else Inl ShapeMismatch)"
  unfolding BottleneckV1Enas_with_def Let_def
  by (simp add: assms bnd_HybridBlock_init_Some bnd_QConv2D_Some bnd_new_BatchNorm
      conv3x3_bound cfg_bits_block_config bnd_ret ret_def eval_nat_numeral)

lemma BottleneckV2Enas_with_None:
  "BottleneckV2Enas_with (\<lambda>cfg w. conv3x3 cfg [bits, c div 4, st, c div 4] [] w)
       c st False ic bits gc None s =
     Inr (\<lparr>bv2_params = s, bv2_bits = bits,
           bv2_conv1_weights = Some \<lparr>pid = s + 2, shape = [c div 4, 1, bits]\<rparr>,
           bv2_conv2_weights = Some \<lparr>pid = s + 4, shape = [c div 4, st, bits]\<rparr>,
           bv2_conv3_weights = Some \<lparr>pid = s + 6, shape = [c, 1, bits]\<rparr>,
           bv2_downsample_conv_weights = None,
           bv2_bn1 = BatchNorm True None (s + 1),
           bv2_conv1 = conv_layer (block_config bits gc) (c div 4) 1 1 0 0 (Some False) None
                         \<lparr>pid = s + 2, shape = [c div 4, 1, bits]\<rparr>,
           bv2_bn2 = BatchNorm True None (s + 3),
           bv2_conv2 = conv_layer (block_config bits gc) (c div 4) 3 st 1 (c div 4) None
                         (Some bits) \<lparr>pid = s + 4, shape = [c div 4, st, bits]\<rparr>,
           bv2_bn3 = BatchNorm True None (s + 5),
           bv2_conv3 = conv_layer (block_config bits gc) c 1 1 0 0 (Some False) None
                         \<lparr>pid = s + 6, shape = [c, 1, bits]\<rparr>,
           bv2_downsample = None\<rparr>, s + 7)"
  unfolding BottleneckV2Enas_with_def Let_def
  by (simp add: bnd_HybridBlock_init_None bnd_QConv2D_None bnd_new_BatchNorm conv3x3_bound
      cfg_bits_block_config bnd_ret conv_params_conv_layer ret_def eval_nat_numeral)

lemma BottleneckV2Enas_with_Some:
  assumes "bv2_conv1_weights p = Some w1" and "bv2_conv2_weights p = Some w2"
      and "bv2_conv3_weights p = Some w3"
  shows "BottleneckV2Enas_with (\<lambda>cfg w. conv3x3 cfg [bits, c div 4, st, c div 4] [] w)
       c st False ic bits gc (Some p) s =
     (if shape w1 = [c div 4, 1, bits] \<and> shape w2 = [c div 4, st, bits] \<and>
         shape w3 = [c, 1, bits]
      then Inr (\<lparr>bv2_params = bv2_params p, bv2_bits = bits,
           bv2_conv1_weights = Some w1, bv2_conv2_weights = Some w2,
           bv2_conv3_weights = Some w3, bv2_downsample_conv_weights = None,
           bv2_bn1 = BatchNorm True None s,
           bv2_conv1 = conv_layer (block_config bits gc) (c div 4) 1 1 0 0 (Some False) None w1,
           bv2_bn2 = BatchNorm True None (s + 1),
           bv2_conv2 = conv_layer (block_config bits gc) (c div 4) 3 st 1 (c div 4) None
                         (Some bits) w2,
           bv2_bn3 = BatchNorm True None (s + 2),
           bv2_conv3 = conv_layer (block_config bits gc) c 1 1 0 0 (Some False) None w3,
           bv2_downsample = None\<rparr>, s + 3)
      else Inl ShapeMismatch)"
  unfolding BottleneckV2Enas_with_def Let_def
  by (simp add: assms bnd_HybridBlock_init_Some bnd_QConv2D_Some bnd_new_BatchNorm
      conv3x3_bound cfg_bits_block_config bnd_ret ret_def eval_nat_numeral)

subsection \<open>Parameter sharing with a partner\<close>

lemma v1_partner_sharing:
  assumes "ds \<longrightarrow> pds"
  shows "\<exists>p s1 b s'.
     BasicBlockV1Enas c st pds pic True bits pgc None s0 = Inr (p, s1) \<and>
     BasicBlockV1Enas c st ds ic True bits gc (Some p) (s1 + k) = Inr (b, s') \<and>
     (\<exists>w1 w2. qconv_params_at (v1_body p) 0 = Inr w1 \<and> qconv_params_at (v1_body b) 0 = Inr w1 \<and>
              qconv_params_at (v1_body p) 2 = Inr w2 \<and> qconv_params_at (v1_body b) 2 = Inr w2 \<and>
              pid w1 \<noteq> pid w2) \<and>
     (ds \<longrightarrow> (\<exists>dw. optional_qconv_params_at (v1_downsample p) 0 = Inr dw \<and>
                   optional_qconv_params_at (v1_downsample b) 0 = Inr dw)) \<and>
     v1_conv_ids b \<subseteq> v1_conv_ids p \<and>
     v1_bn_ids b \<inter> (v1_bn_ids p \<union> v1_conv_ids p) = {} \<and>
     card (v1_bn_ids b) = (if ds then 3 else 2) \<and>
     v1_params b = v1_params p"
proof -
  let ?s1 = "if pds then s0 + 7 else s0 + 5"
  let ?s = "?s1 + k"
  let ?w1 = "\<lparr>pid = s0 + 1, shape = [c, st, bits]\<rparr>"
  let ?w2 = "\<lparr>pid = s0 + 3, shape = [c, 1, bits]\<rparr>"
  let ?dw = "\<lparr>pid = s0 + 5, shape = [c, st, bits]\<rparr>"
  let ?p = "v1_block s0 c st pic bits pgc ?w1 (s0 + 2) ?w2 (s0 + 4)
              (if pds then Some (?dw, s0 + 6) else None)"
  let ?b = "v1_block s0 c st ic bits gc ?w1 ?s ?w2 (?s + 1)
              (if ds then Some (?dw, ?s + 2) else None)"
  have P: "BasicBlockV1Enas c st pds pic True bits pgc None s0 = Inr (?p, ?s1)"
    by (rule BasicBlockV1Enas_None)
  have B: "BasicBlockV1Enas c st ds ic True bits gc (Some ?p) ?s
             = Inr (?b, if ds then ?s + 3 else ?s + 2)"
    by (rule v1_partner_built [OF assms])
  have 1: "\<exists>w1 w2. qconv_params_at (v1_body ?p) 0 = Inr w1 \<and> qconv_params_at (v1_body ?b) 0 = Inr w1 \<and>
              qconv_params_at (v1_body ?p) 2 = Inr w2 \<and> qconv_params_at (v1_body ?b) 2 = Inr w2 \<and>
              pid w1 \<noteq> pid w2"
    by (simp add: qconv_params_at_v1_block_0 qconv_params_at_v1_block_2)
  have 2: "ds \<longrightarrow> (\<exists>dw. optional_qconv_params_at (v1_downsample ?p) 0 = Inr dw \<and>
                   optional_qconv_params_at (v1_downsample ?b) 0 = Inr dw)"
    using assms by (simp add: optional_qconv_params_at_v1_block)
  have 3: "v1_conv_ids ?b \<subseteq> v1_conv_ids ?p"
    using assms by (auto simp add: v1_block_conv_ids)
  have 4: "v1_bn_ids ?b \<inter> (v1_bn_ids ?p \<union> v1_conv_ids ?p) = {}"
    by (auto simp add: v1_block_conv_ids v1_block_bn_ids)
  have 5: "card (v1_bn_ids ?b) = (if ds then 3 else 2)"
    by (simp add: v1_block_bn_ids)
  have 6: "v1_params ?b = v1_params ?p"
    by (simp add: v1_block_params)
  from P B 1 2 3 4 5 6 show ?thesis by blast
qed

lemma v2_partner_sharing:
  assumes "ds \<longrightarrow> pds"
  shows "\<exists>p s1 b s'.
     BasicBlockV2Enas c st pds pic True bits pgc None s0 = Inr (p, s1) \<and>
     BasicBlockV2Enas c st ds ic True bits gc (Some p) (s1 + k) = Inr (b, s') \<and>
     (\<exists>w1 w2. qconv_params_at (v2_body p) 0 = Inr w1 \<and> qconv_params_at (v2_body b) 0 = Inr w1 \<and>
              qconv_params_at (v2_body p) 2 = Inr w2 \<and> qconv_params_at (v2_body b) 2 = Inr w2 \<and>
              pid w1 \<noteq> pid w2) \<and>
     (ds \<longrightarrow> (\<exists>dw. optional_qconv_params_at (v2_downsample p) 0 = Inr dw \<and>
                   optional_qconv_params_at (v2_downsample b) 0 = Inr dw)) \<and>
     v2_conv_ids b \<subseteq> v2_conv_ids p \<and>
     v2_bn_ids b \<inter> (v2_bn_ids p \<union> v2_conv_ids p) = {} \<and>
     card (v2_bn_ids b) = 2 \<and>
     v2_params b = v2_params p"
proof -
  let ?s1 = "if pds then s0 + 6 else s0 + 5"
  let ?s = "?s1 + k"
  let ?w1 = "\<lparr>pid = s0 + 2, shape = [c, st, bits]\<rparr>"
  let ?w2 = "\<lparr>pid = s0 + 4, shape = [c, 1, bits]\<rparr>"
  let ?dw = "\<lparr>pid = s0 + 5, shape = [c, st, bits]\<rparr>"
  let ?p = "v2_block s0 c st pic bits pgc (s0 + 1) ?w1 (s0 + 3) ?w2
              (if pds then Some ?dw else None) (Some ?w1) (Some ?w2)
              (if pds then Some (Some ?dw) else None)"
  let ?b = "v2_block s0 c st ic bits gc ?s ?w1 (?s + 1) ?w2
              (if ds then Some ?dw else None) (Some ?w1) (Some ?w2)
              (if ds then Some (Some ?dw) else None)"
  have P: "BasicBlockV2Enas c st pds pic True bits pgc None s0 = Inr (?p, ?s1)"
    by (rule BasicBlockV2Enas_None)
  have B: "BasicBlockV2Enas c st ds ic True bits gc (Some ?p) ?s = Inr (?b, ?s + 2)"
    by (rule v2_partner_built [OF assms])
  have 1: "\<exists>w1 w2. qconv_params_at (v2_body ?p) 0 = Inr w1 \<and> qconv_params_at (v2_body ?b) 0 = Inr w1 \<and>
              qconv_params_at (v2_body ?p) 2 = Inr w2 \<and> qconv_params_at (v2_body ?b) 2 = Inr w2 \<and>
              pid w1 \<noteq> pid w2"
    by (simp add: qconv_params_at_v2_block_0 qconv_params_at_v2_block_2)
  have 2: "ds \<longrightarrow> (\<exists>dw. optional_qconv_params_at (v2_downsample ?p) 0 = Inr dw \<and>
                   optional_qconv_params_at (v2_downsample ?b) 0 = Inr dw)"
    using assms by (simp add: optional_qconv_params_at_v2_block)
  have 3: "v2_conv_ids ?b \<subseteq> v2_conv_ids ?p"
    using assms by (auto simp add: v2_block_conv_ids opt_ids_def)
  have 4: "v2_bn_ids ?b \<inter> (v2_bn_ids ?p \<union> v2_conv_ids ?p) = {}"
    by (auto simp add: v2_block_conv_ids v2_block_bn_ids opt_ids_def)
  have 5: "card (v2_bn_ids ?b) = 2"
    by (simp add: v2_block_bn_ids)
  have 6: "v2_params ?b = v2_params ?p"
    by (simp add: v2_block_params)
  from P B 1 2 3 4 5 6 show ?thesis by blast
qed

lemma bv1_partner_sharing:
  "\<exists>p s1 b s'.
     BottleneckV1Enas_with (\<lambda>cfg w. conv3x3 cfg [bits, c div 4, 1, c div 4] [] w)
       c st False pic bits pgc None s0 = Inr (p, s1) \<and>
     BottleneckV1Enas_with (\<lambda>cfg w. conv3x3 cfg [bits, c div 4, 1, c div 4] [] w)
       c st False ic bits gc (Some p) (s1 + k) = Inr (b, s') \<and>
     (\<exists>w1 w2 w3.
        params_at (bv1_body p) 0 = Inr w1 \<and> params_at (bv1_body b) 0 = Inr w1 \<and>
        params_at (bv1_body p) 3 = Inr w2 \<and> params_at (bv1_body b) 3 = Inr w2 \<and>
        params_at (bv1_body p) 6 = Inr w3 \<and> params_at (bv1_body b) 6 = Inr w3 \<and>
        distinct [pid w1, pid w2, pid w3]) \<and>
     bv1_conv_ids b = bv1_conv_ids p \<and>
     bv1_bn_ids b \<inter> (bv1_bn_ids p \<union> bv1_conv_ids p) = {} \<and>
     card (bv1_bn_ids b) = 3 \<and>
     bv1_params b = bv1_params p"
proof -
  let ?w1 = "\<lparr>pid = s0 + 1, shape = [c div 4, st, bits]\<rparr>"
  let ?w2 = "\<lparr>pid = s0 + 3, shape = [c div 4, 1, bits]\<rparr>"
  let ?w3 = "\<lparr>pid = s0 + 5, shape = [c, 1, bits]\<rparr>"
  let ?p = "\<lparr>bv1_params = s0, bv1_bits = bits,
           bv1_conv1_weights = Some ?w1, bv1_conv2_weights = Some ?w2,
           bv1_conv3_weights = Some ?w3, bv1_downsample_conv_weights = None,
           bv1_body =
             [QConv (conv_layer (block_config bits pgc) (c div 4) 1 st 0 0 None None ?w1),
              BatchNorm True None (s0 + 2), Activation ''relu'',
              QConv (conv_layer (block_config bits pgc) (c div 4) 3 1 1 (c div 4) None
                       (Some bits) ?w2),
              BatchNorm True None (s0 + 4), Activation ''relu'',
              QConv (conv_layer (block_config bits pgc) c 1 1 0 0 None None ?w3),
              BatchNorm True None (s0 + 6)],
           bv1_downsample = None\<rparr>"
  let ?s = "s0 + 7 + k"
  let ?b = "\<lparr>bv1_params = bv1_params ?p, bv1_bits = bits,
           bv1_conv1_weights = Some ?w1, bv1_conv2_weights = Some ?w2,
           bv1_conv3_weights = Some ?w3, bv1_downsample_conv_weights = None,
           bv1_body =
             [QConv (conv_layer (block_config bits gc) (c div 4) 1 st 0 0 None None ?w1),
              BatchNorm True None ?s, Activation ''relu'',
              QConv (conv_layer (block_config bits gc) (c div 4) 3 1 1 (c div 4) None
                       (Some bits) ?w2),
              BatchNorm True None (?s + 1), Activation ''relu'',
              QConv (conv_layer (block_config bits gc) c 1 1 0 0 None None ?w3),
              BatchNorm True None (?s + 2)],
           bv1_downsample = None\<rparr>"
  have P: "BottleneckV1Enas_with (\<lambda>cfg w. conv3x3 cfg [bits, c div 4, 1, c div 4] [] w)
             c st False pic bits pgc None s0 = Inr (?p, s0 + 7)"
    by (rule BottleneckV1Enas_with_None)
  have B: "BottleneckV1Enas_with (\<lambda>cfg w. conv3x3 cfg [bits, c div 4, 1, c div 4] [] w)
             c st False ic bits gc (Some ?p) ?s = Inr (?b, ?s + 3)"
    by (subst BottleneckV1Enas_with_Some [where ?w1.0 = ?w1 and ?w2.0 = ?w2 and ?w3.0 = ?w3])
      simp_all
  have 1: "\<exists>w1 w2 w3.
        params_at (bv1_body ?p) 0 = Inr w1 \<and> params_at (bv1_body ?b) 0 = Inr w1 \<and>
        params_at (bv1_body ?p) 3 = Inr w2 \<and> params_at (bv1_body ?b) 3 = Inr w2 \<and>
        params_at (bv1_body ?p) 6 = Inr w3 \<and> params_at (bv1_body ?b) 6 = Inr w3 \<and>
        distinct [pid w1, pid w2, pid w3]"
    by (simp add: params_at_simps conv_params_conv_layer)
  have 3: "bv1_conv_ids ?b = bv1_conv_ids ?p"
    by (simp add: bv1_conv_ids_def seq_conv_ids_def opt_ids_def conv_params_conv_layer)
  have 4: "bv1_bn_ids ?b \<inter> (bv1_bn_ids ?p \<union> bv1_conv_ids ?p) = {}"
    by (simp add: bv1_conv_ids_def bv1_bn_ids_def seq_conv_ids_def seq_bn_ids_def opt_ids_def
        conv_params_conv_layer)
  have 5: "card (bv1_bn_ids ?b) = 3"
    by (simp add: bv1_bn_ids_def seq_bn_ids_def opt_ids_def)
  have 6: "bv1_params ?b = bv1_params ?p"
    by simp
  from P B 1 3 4 5 6 show ?thesis by blast
qed

lemma bv2_partner_sharing:
  "\<exists>p s1 b s'.
     BottleneckV2Enas_with (\<lambda>cfg w. conv3x3 cfg [bits, c div 4, st, c div 4] [] w)
       c st False pic bits pgc None s0 = Inr (p, s1) \<and>
     BottleneckV2Enas_with (\<lambda>cfg w. conv3x3 cfg [bits, c div 4, st, c div 4] [] w)
       c st False ic bits gc (Some p) (s1 + k) = Inr (b, s') \<and>
     conv_params (bv2_conv1 b) = conv_params (bv2_conv1 p) \<and>
     conv_params (bv2_conv2 b) = conv_params (bv2_conv2 p) \<and>
     conv_params (bv2_conv3 b) = conv_params (bv2_conv3 p) \<and>
     distinct [pid (conv_params (bv2_conv1 p)), pid (conv_params (bv2_conv2 p)),
               pid (conv_params (bv2_conv3 p))] \<and>
     bv2_conv_ids b = bv2_conv_ids p \<and>
     bv2_bn_ids b \<inter> (bv2_bn_ids p \<union> bv2_conv_ids p) = {} \<and>
     card (bv2_bn_ids b) = 3 \<and>
     bv2_params b = bv2_params p"
proof -
  let ?w1 = "\<lparr>pid = s0 + 2, shape = [c div 4, 1, bits]\<rparr>"
  let ?w2 = "\<lparr>pid = s0 + 4, shape = [c div 4, st, bits]\<rparr>"
  let ?w3 = "\<lparr>pid = s0 + 6, shape = [c, 1, bits]\<rparr>"
  let ?p = "\<lparr>bv2_params = s0, bv2_bits = bits,
           bv2_conv1_weights = Some ?w1, bv2_conv2_weights = Some ?w2,
           bv2_conv3_weights = Some ?w3, bv2_downsample_conv_weights = None,
           bv2_bn1 = BatchNorm True None (s0 + 1),
           bv2_conv1 = conv_layer (block_config bits pgc) (c div 4) 1 1 0 0 (Some False) None ?w1,
           bv2_bn2 = BatchNorm True None (s0 + 3),
           bv2_conv2 = conv_layer (block_config bits pgc) (c div 4) 3 st 1 (c div 4) None
                         (Some bits) ?w2,
           bv2_bn3 = BatchNorm True None (s0 + 5),
           bv2_conv3 = conv_layer (block_config bits pgc) c 1 1 0 0 (Some False) None ?w3,
           bv2_downsample = None\<rparr>"
  let ?s = "s0 + 7 + k"
  let ?b = "\<lparr>bv2_params = bv2_params ?p, bv2_bits = bits,
           bv2_conv1_weights = Some ?w1, bv2_conv2_weights = Some ?w2,
           bv2_conv3_weights = Some ?w3, bv2_downsample_conv_weights = None,
           bv2_bn1 = BatchNorm True None ?s,
           bv2_conv1 = conv_layer (block_config bits gc) (c div 4) 1 1 0 0 (Some False) None ?w1,
           bv2_bn2 = BatchNorm True None (?s + 1),
           bv2_conv2 = conv_layer (block_config bits gc) (c div 4) 3 st 1 (c div 4) None
                         (Some bits) ?w2,
           bv2_bn3 = BatchNorm True None (?s + 2),
           bv2_conv3 = conv_layer (block_config bits gc) c 1 1 0 0 (Some False) None ?w3,
           bv2_downsample = None\<rparr>"
  have P: "BottleneckV2Enas_with (\<lambda>cfg w. conv3x3 cfg [bits, c div 4, st, c div 4] [] w)
             c st False pic bits pgc None s0 = Inr (?p, s0 + 7)"
    by (rule BottleneckV2Enas_with_None)
  have B: "BottleneckV2Enas_with (\<lambda>cfg w. conv3x3 cfg [bits, c div 4, st, c div 4] [] w)
             c st False ic bits gc (Some ?p) ?s = Inr (?b, ?s + 3)"
    by (subst BottleneckV2Enas_with_Some [where ?w1.0 = ?w1 and ?w2.0 = ?w2 and ?w3.0 = ?w3])
      simp_all
  have 1: "conv_params (bv2_conv1 ?b) = conv_params (bv2_conv1 ?p) \<and>
     conv_params (bv2_conv2 ?b) = conv_params (bv2_conv2 ?p) \<and>
     conv_params (bv2_conv3 ?b) = conv_params (bv2_conv3 ?p) \<and>
     distinct [pid (conv_params (bv2_conv1 ?p)), pid (conv_params (bv2_conv2 ?p)),
               pid (conv_params (bv2_conv3 ?p))]"
    by (simp add: conv_params_conv_layer)
  have 3: "bv2_conv_ids ?b = bv2_conv_ids ?p"
    by (simp add: bv2_conv_ids_def opt_ids_def conv_params_conv_layer)
  have 4: "bv2_bn_ids ?b \<inter> (bv2_bn_ids ?p \<union> bv2_conv_ids ?p) = {}"
    by (simp add: bv2_conv_ids_def bv2_bn_ids_def opt_ids_def conv_params_conv_layer)
  have 5: "card (bv2_bn_ids ?b) = 3"
    by (simp add: bv2_bn_ids_def)
  have 6: "bv2_params ?b = bv2_params ?p"
    by simp
  from P B 1 3 4 5 6 show ?thesis by blast
qed




text \<open>
  C2: let the partner be a block the constructor built with \<^verbatim>\<open>init=True\<close> and no
  partner of its own, and let a block of the same channels, stride and bit width be
  constructed with this partner after \<open>k\<close> further allocations, with any input channels
  and gradient-cancel threshold, and with a downsample branch only if the partner has one.
  Then the construction returns a block; its convolutions hold the weight tensors of the
  partner's convolutions, position by position (the first, the second, and the downsample
  convolution when the block has one), and the first two are different tensors; every
  convolution weight of the block is one of the partner's; its batchnorms are new: none of
  their parameter sets is a batchnorm or a weight of the partner; and the dictionary the
  block hands to \<^verbatim>\<open>super().__init__\<close> is the partner's. This holds for
  \<^verbatim>\<open>BasicBlockV1Enas\<close> and \<^verbatim>\<open>BasicBlockV2Enas\<close>. The two bottleneck constructors
  return no block, with or without a partner; were their second convolution built by
  \<^verbatim>\<open>_conv3x3(bits, channels // 4, stride, channels // 4, params=...)\<close>, with the four
  arguments the helper requires, their blocks without a downsample branch would share their
  three convolution weights with the partner in the same way, and no batchnorm.
\<close>

theorem partner_shares_conv_weights_only:
  assumes "ds \<longrightarrow> pds"
  shows
  "(\<exists>p s1 b s'.
     BasicBlockV1Enas c st pds pic True bits pgc None s0 = Inr (p, s1) \<and>
     BasicBlockV1Enas c st ds ic True bits gc (Some p) (s1 + k) = Inr (b, s') \<and>
     (\<exists>w1 w2. qconv_params_at (v1_body p) 0 = Inr w1 \<and> qconv_params_at (v1_body b) 0 = Inr w1 \<and>
              qconv_params_at (v1_body p) 2 = Inr w2 \<and> qconv_params_at (v1_body b) 2 = Inr w2 \<and>
              pid w1 \<noteq> pid w2) \<and>
     (ds \<longrightarrow> (\<exists>dw. optional_qconv_params_at (v1_downsample p) 0 = Inr dw \<and>
                   optional_qconv_params_at (v1_downsample b) 0 = Inr dw)) \<and>
     v1_conv_ids b \<subseteq> v1_conv_ids p \<and>
     v1_bn_ids b \<inter> (v1_bn_ids p \<union> v1_conv_ids p) = {} \<and>
     card (v1_bn_ids b) = (if ds then 3 else 2) \<and>
     v1_params b = v1_params p) \<and>
   (\<exists>p s1 b s'.
     BasicBlockV2Enas c st pds pic True bits pgc None s0 = Inr (p, s1) \<and>
     BasicBlockV2Enas c st ds ic True bits gc (Some p) (s1 + k) = Inr (b, s') \<and>
     (\<exists>w1 w2. qconv_params_at (v2_body p) 0 = Inr w1 \<and> qconv_params_at (v2_body b) 0 = Inr w1 \<and>
              qconv_params_at (v2_body p) 2 = Inr w2 \<and> qconv_params_at (v2_body b) 2 = Inr w2 \<and>
              pid w1 \<noteq> pid w2) \<and>
     (ds \<longrightarrow> (\<exists>dw. optional_qconv_params_at (v2_downsample p) 0 = Inr dw \<and>
                   optional_qconv_params_at (v2_downsample b) 0 = Inr dw)) \<and>
     v2_conv_ids b \<subseteq> v2_conv_ids p \<and>
     v2_bn_ids b \<inter> (v2_bn_ids p \<union> v2_conv_ids p) = {} \<and>
     card (v2_bn_ids b) = 2 \<and>
     v2_params b = v2_params p) \<and>
   isl (BottleneckV1Enas c st ds ic bits gc partner1 s) \<and>
   isl (BottleneckV2Enas c st ds ic bits gc partner2 s) \<and>
   (\<exists>p s1 b s'.
     BottleneckV1Enas_with (\<lambda>cfg w. conv3x3 cfg [bits, c div 4, 1, c div 4] [] w)
       c st False pic bits pgc None s0 = Inr (p, s1) \<and>
     BottleneckV1Enas_with (\<lambda>cfg w. conv3x3 cfg [bits, c div 4, 1, c div 4] [] w)
       c st False ic bits gc (Some p) (s1 + k) = Inr (b, s') \<and>
     (\<exists>w1 w2 w3.
        params_at (bv1_body p) 0 = Inr w1 \<and> params_at (bv1_body b) 0 = Inr w1 \<and>
        params_at (bv1_body p) 3 = Inr w2 \<and> params_at (bv1_body b) 3 = Inr w2 \<and>
        params_at (bv1_body p) 6 = Inr w3 \<and> params_at (bv1_body b) 6 = Inr w3 \<and>
        distinct [pid w1, pid w2, pid w3]) \<and>
     bv1_conv_ids b = bv1_conv_ids p \<and>
     bv1_bn_ids b \<inter> (bv1_bn_ids p \<union> bv1_conv_ids p) = {} \<and>
     card (bv1_bn_ids b) = 3 \<and>
     bv1_params b = bv1_params p) \<and>
   (\<exists>p s1 b s'.
     BottleneckV2Enas_with (\<lambda>cfg w. conv3x3 cfg [bits, c div 4, st, c div 4] [] w)
       c st False pic bits pgc None s0 = Inr (p, s1) \<and>
     BottleneckV2Enas_with (\<lambda>cfg w. conv3x3 cfg [bits, c div 4, st, c div 4] [] w)
       c st False ic bits gc (Some p) (s1 + k) = Inr (b, s') \<and>
     conv_params (bv2_conv1 b) = conv_params (bv2_conv1 p) \<and>
     conv_params (bv2_conv2 b) = conv_params (bv2_conv2 p) \<and>
     conv_params (bv2_conv3 b) = conv_params (bv2_conv3 p) \<and>
     distinct [pid (conv_params (bv2_conv1 p)), pid (conv_params (bv2_conv2 p)),
               pid (conv_params (bv2_conv3 p))] \<and>
     bv2_conv_ids b = bv2_conv_ids p \<and>
     bv2_bn_ids b \<inter> (bv2_bn_ids p \<union> bv2_conv_ids p) = {} \<and>
     card (bv2_bn_ids b) = 3 \<and>
     bv2_params b = bv2_params p)"
  by (intro conjI v1_partner_sharing [OF assms] v2_partner_sharing [OF assms]
      BottleneckV1Enas_fails BottleneckV2Enas_fails bv1_partner_sharing bv2_partner_sharing)

theorem partner_shares_conv_weights_only_witness:
  "(\<exists>p s1 b s'.
     BasicBlockV1Enas 128 2 True 64 True 1 1 None 0 = Inr (p, s1) \<and>
     BasicBlockV1Enas 128 2 True 0 True 1 5 (Some p) (s1 + 2) = Inr (b, s') \<and>
     (\<exists>w1 w2. qconv_params_at (v1_body p) 0 = Inr w1 \<and> qconv_params_at (v1_body b) 0 = Inr w1 \<and>
              qconv_params_at (v1_body p) 2 = Inr w2 \<and> qconv_params_at (v1_body b) 2 = Inr w2 \<and>
              pid w1 \<noteq> pid w2) \<and>
     ((\<exists>dw. optional_qconv_params_at (v1_downsample p) 0 = Inr dw \<and>
                   optional_qconv_params_at (v1_downsample b) 0 = Inr dw)) \<and>
     v1_conv_ids b \<subseteq> v1_conv_ids p \<and>
     v1_bn_ids b \<inter> (v1_bn_ids p \<union> v1_conv_ids p) = {} \<and>
     card (v1_bn_ids b) = 3 \<and>
     v1_params b = v1_params p) \<and>
   (\<exists>p s1 b s'.
     BasicBlockV2Enas 128 2 True 64 True 1 1 None 0 = Inr (p, s1) \<and>
     BasicBlockV2Enas 128 2 True 0 True 1 5 (Some p) (s1 + 2) = Inr (b, s') \<and>
     (\<exists>w1 w2. qconv_params_at (v2_body p) 0 = Inr w1 \<and> qconv_params_at (v2_body b) 0 = Inr w1 \<and>
              qconv_params_at (v2_body p) 2 = Inr w2 \<and> qconv_params_at (v2_body b) 2 = Inr w2 \<and>
              pid w1 \<noteq> pid w2) \<and>
     ((\<exists>dw. optional_qconv_params_at (v2_downsample p) 0 = Inr dw \<and>
                   optional_qconv_params_at (v2_downsample b) 0 = Inr dw)) \<and>
     v2_conv_ids b \<subseteq> v2_conv_ids p \<and>
     v2_bn_ids b \<inter> (v2_bn_ids p \<union> v2_conv_ids p) = {} \<and>
     card (v2_bn_ids b) = 2 \<and>
     v2_params b = v2_params p) \<and>
   isl (BottleneckV1Enas 128 2 True 0 1 5 None 0) \<and>
   isl (BottleneckV2Enas 128 2 True 0 1 5 None 0) \<and>
   (\<exists>p s1 b s'.
     BottleneckV1Enas_with (\<lambda>cfg w. conv3x3 cfg [1, 128 div 4, 1, 128 div 4] [] w)
       128 2 False 64 1 1 None 0 = Inr (p, s1) \<and>
     BottleneckV1Enas_with (\<lambda>cfg w. conv3x3 cfg [1, 128 div 4, 1, 128 div 4] [] w)
       128 2 False 0 1 5 (Some p) (s1 + 2) = Inr (b, s') \<and>
     (\<exists>w1 w2 w3.
        params_at (bv1_body p) 0 = Inr w1 \<and> params_at (bv1_body b) 0 = Inr w1 \<and>
        params_at (bv1_body p) 3 = Inr w2 \<and> params_at (bv1_body b) 3 = Inr w2 \<and>
        params_at (bv1_body p) 6 = Inr w3 \<and> params_at (bv1_body b) 6 = Inr w3 \<and>
        distinct [pid w1, pid w2, pid w3]) \<and>
     bv1_conv_ids b = bv1_conv_ids p \<and>
     bv1_bn_ids b \<inter> (bv1_bn_ids p \<union> bv1_conv_ids p) = {} \<and>
     card (bv1_bn_ids b) = 3 \<and>
     bv1_params b = bv1_params p) \<and>
   (\<exists>p s1 b s'.
     BottleneckV2Enas_with (\<lambda>cfg w. conv3x3 cfg [1, 128 div 4, 2, 128 div 4] [] w)
       128 2 False 64 1 1 None 0 = Inr (p, s1) \<and>
     BottleneckV2Enas_with (\<lambda>cfg w. conv3x3 cfg [1, 128 div 4, 2, 128 div 4] [] w)
       128 2 False 0 1 5 (Some p) (s1 + 2) = Inr (b, s') \<and>
     conv_params (bv2_conv1 b) = conv_params (bv2_conv1 p) \<and>
     conv_params (bv2_conv2 b) = conv_params (bv2_conv2 p) \<and>
     conv_params (bv2_conv3 b) = conv_params (bv2_conv3 p) \<and>
     distinct [pid (conv_params (bv2_conv1 p)), pid (conv_params (bv2_conv2 p)),
               pid (conv_params (bv2_conv3 p))] \<and>
     bv2_conv_ids b = bv2_conv_ids p \<and>
     bv2_bn_ids b \<inter> (bv2_bn_ids p \<union> bv2_conv_ids p) = {} \<and>
     card (bv2_bn_ids b) = 3 \<and>
     bv2_params b = bv2_params p)"
  using partner_shares_conv_weights_only [where ds = True and pds = True and c = 128 and st = 2
      and pic = 64 and ic = 0 and bits = 1 and pgc = 1 and gc = 5 and ?s0.0 = 0 and k = 2
      and s = 0 and ?partner1.0 = None and ?partner2.0 = None]
  by simp

subsection \<open>Blocks of a stage\<close>

lemma bnd_InrE:
  assumes "bnd m f s = Inr r"
  obtains x s1 where "m s = Inr (x, s1)" and "f x s1 = Inr r"
  using assms by (auto simp: bnd_def split: sum.splits)

lemma new_block_BasicBlockV1:
  "new_block BasicBlockV1EnasClass c st ds ic gc s =
     Inr (BasicV1 (v1_block s c st ic 1 gc \<lparr>pid = s + 1, shape = [c, st, 1]\<rparr> (s + 2)
                     \<lparr>pid = s + 3, shape = [c, 1, 1]\<rparr> (s + 4)
                     (if ds then Some (\<lparr>pid = s + 5, shape = [c, st, 1]\<rparr>, s + 6) else None)),
          if ds then s + 7 else s + 5)"
  by (simp add: bnd_Inr [OF BasicBlockV1Enas_None] ret_def)

lemma new_block_BasicBlockV2:
  "new_block BasicBlockV2EnasClass c st ds ic gc s =
     Inr (BasicV2 (v2_block s c st ic 1 gc (s + 1) \<lparr>pid = s + 2, shape = [c, st, 1]\<rparr> (s + 3)
                     \<lparr>pid = s + 4, shape = [c, 1, 1]\<rparr>
                     (if ds then Some \<lparr>pid = s + 5, shape = [c, st, 1]\<rparr> else None)
                     (Some \<lparr>pid = s + 2, shape = [c, st, 1]\<rparr>)
                     (Some \<lparr>pid = s + 4, shape = [c, 1, 1]\<rparr>)
                     (if ds then Some (Some \<lparr>pid = s + 5, shape = [c, st, 1]\<rparr>) else None)),
          if ds then s + 6 else s + 5)"
  by (simp add: bnd_Inr [OF BasicBlockV2Enas_None] ret_def)

lemma new_block_BottleneckV1:
  "new_block BottleneckV1EnasClass c st ds ic gc s =
     Inl (TypeError ''missing required positional argument'')"
  by (simp add: bnd_Inl [OF BottleneckV1Enas_None])

lemma new_block_BottleneckV2:
  "new_block BottleneckV2EnasClass c st ds ic gc s =
     Inl (TypeError ''got multiple values for argument'')"
  by (simp add: bnd_Inl [OF BottleneckV2Enas_None])

lemma new_block_shape:
  assumes "new_block cls c st ds ic gc s = Inr (b, s')"
  shows "has_downsample b = ds \<and> block_stride b = Some st"
proof (cases cls)
  case BasicBlockV1EnasClass
  with assms show ?thesis
    by (cases ds) (auto simp del: new_block.simps simp add: new_block_BasicBlockV1 v1_block_def)
next
  case BottleneckV1EnasClass
  with assms show ?thesis by (simp del: new_block.simps add: new_block_BottleneckV1)
next
  case BasicBlockV2EnasClass
  with assms show ?thesis
    by (cases ds) (auto simp del: new_block.simps simp add: new_block_BasicBlockV2 v2_block_def)
next
  case BottleneckV2EnasClass
  with assms show ?thesis by (simp del: new_block.simps add: new_block_BottleneckV2)
qed

lemma more_blocks_shape:
  "more_blocks cls c n s = Inr (bs, s') \<Longrightarrow>
   length bs = n \<and> list_all (\<lambda>b. \<not> has_downsample b \<and> block_stride b = Some 1) bs"
proof (induction n arbitrary: s bs s')
  case 0
  then show ?case by (simp add: ret_def)
next
  case (Suc n)
  from Suc.prems obtain b s1 where b: "new_block cls c 1 False c 1 s = Inr (b, s1)"
    and rest: "bnd (more_blocks cls c n) (\<lambda>bs. ret (b # bs)) s1 = Inr (bs, s')"
    by (auto elim: bnd_InrE)
  from rest obtain bs' s2 where more: "more_blocks cls c n s1 = Inr (bs', s2)"
    and bs: "bs = b # bs'"
    by (auto elim!: bnd_InrE simp: ret_def)
  from Suc.IH [OF more] new_block_shape [OF b] bs show ?case by simp
qed

lemma make_layer_shape:
  assumes "make_layer self cls n c st idx ic s = Inr (bs, s')"
  shows "stage_shape bs st (c \<noteq> ic) \<and> int (length bs) = max 1 n"
proof -
  from assms obtain b s1 where b: "new_block cls c st (c \<noteq> ic) ic (grad_cancel self) s = Inr (b, s1)"
    and rest: "bnd (more_blocks cls c (nat (n - 1))) (\<lambda>bs. ret (b # bs)) s1 = Inr (bs, s')"
    unfolding make_layer_def by (auto elim: bnd_InrE)
  from rest obtain bs' s2 where more: "more_blocks cls c (nat (n - 1)) s1 = Inr (bs', s2)"
    and bs: "bs = b # bs'"
    by (auto elim!: bnd_InrE simp: ret_def)
  from more_blocks_shape [OF more] new_block_shape [OF b] bs show ?thesis
    by (auto simp: stage_shape_def)
qed

lemma v1_stages_shape:
  "v1_stages self cls channels i layers s = Inr (bs, s') \<Longrightarrow>
   \<exists>gs. bs = concat gs \<and> length gs = length layers \<and>
        (\<forall>k<length layers.
           stage_shape (gs ! k) (if i + k = 0 then 1 else 2)
             (channels ! Suc (i + k) \<noteq> channels ! (i + k)) \<and>
           int (length (gs ! k)) = max 1 (layers ! k))"
proof (induction layers arbitrary: i s bs s')
  case Nil
  then show ?case by (simp add: ret_def)
next
  case (Cons n rest)
  from Cons.prems obtain c s1 where c: "lift (item channels (i + 1)) s = Inr (c, s1)"
    and r1: "bnd (lift (item channels i)) (\<lambda>ic.
               bnd (make_layer self cls n c (if i = 0 then 1 else 2) (i + 1) ic) (\<lambda>bs.
               bnd (v1_stages self cls channels (i + 1) rest) (\<lambda>more. ret (bs @ more)))) s1
             = Inr (bs, s')"
    by (auto elim: bnd_InrE)
  from r1 obtain ic s2 where ic: "lift (item channels i) s1 = Inr (ic, s2)"
    and r2: "bnd (make_layer self cls n c (if i = 0 then 1 else 2) (i + 1) ic) (\<lambda>bs.
               bnd (v1_stages self cls channels (i + 1) rest) (\<lambda>more. ret (bs @ more))) s2
             = Inr (bs, s')"
    by (auto elim: bnd_InrE)
  from r2 obtain g s3 where g: "make_layer self cls n c (if i = 0 then 1 else 2) (i + 1) ic s2 = Inr (g, s3)"
    and r3: "bnd (v1_stages self cls channels (i + 1) rest) (\<lambda>more. ret (g @ more)) s3 = Inr (bs, s')"
    by (auto elim: bnd_InrE)
  from r3 obtain more s4 where more: "v1_stages self cls channels (i + 1) rest s3 = Inr (more, s4)"
    and bs: "bs = g @ more"
    by (auto elim!: bnd_InrE simp: ret_def)
  from c have cv: "c = channels ! Suc i"
    by (auto simp: lift_def item_def split: if_splits)
  from ic have icv: "ic = channels ! i"
    by (auto simp: lift_def item_def split: if_splits)
  from Cons.IH [OF more] obtain gs where gs: "more = concat gs" "length gs = length rest"
    and all: "\<forall>k<length rest.
           stage_shape (gs ! k) (if i + 1 + k = 0 then 1 else 2)
             (channels ! Suc (i + 1 + k) \<noteq> channels ! (i + 1 + k)) \<and>
           int (length (gs ! k)) = max 1 (rest ! k)"
    by blast
  have "\<forall>k<length (n # rest).
           stage_shape ((g # gs) ! k) (if i + k = 0 then 1 else 2)
             (channels ! Suc (i + k) \<noteq> channels ! (i + k)) \<and>
           int (length ((g # gs) ! k)) = max 1 ((n # rest) ! k)"
  proof (intro allI impI)
    fix k assume k: "k < length (n # rest)"
    show "stage_shape ((g # gs) ! k) (if i + k = 0 then 1 else 2)
             (channels ! Suc (i + k) \<noteq> channels ! (i + k)) \<and>
           int (length ((g # gs) ! k)) = max 1 ((n # rest) ! k)"
    proof (cases k)
      case 0
      with make_layer_shape [OF g] cv icv show ?thesis by simp
    next
      case (Suc j)
      with k all show ?thesis by simp
    qed
  qed
  with gs bs show ?case
    by (intro exI [where x = "g # gs"]) simp
qed

lemma new_block_is_block:
  assumes "new_block cls c st ds ic gc s = Inr (b, s')"
  shows "is_block c st ds ic b"
proof (cases cls)
  case BasicBlockV1EnasClass
  with assms show ?thesis
    by (cases ds)
      (auto simp del: new_block.simps simp add: new_block_BasicBlockV1 v1_block_def is_block_def)
next
  case BottleneckV1EnasClass
  with assms show ?thesis by (simp del: new_block.simps add: new_block_BottleneckV1)
next
  case BasicBlockV2EnasClass
  with assms show ?thesis
    by (cases ds)
      (auto simp del: new_block.simps simp add: new_block_BasicBlockV2 v2_block_def is_block_def)
next
  case BottleneckV2EnasClass
  with assms show ?thesis by (simp del: new_block.simps add: new_block_BottleneckV2)
qed

lemma more_blocks_is_block:
  "more_blocks cls c n s = Inr (bs, s') \<Longrightarrow>
   length bs = n \<and> list_all (is_block c 1 False c) bs"
proof (induction n arbitrary: s bs s')
  case 0
  then show ?case by (simp add: ret_def)
next
  case (Suc n)
  from Suc.prems obtain b s1 where b: "new_block cls c 1 False c 1 s = Inr (b, s1)"
    and rest: "bnd (more_blocks cls c n) (\<lambda>bs. ret (b # bs)) s1 = Inr (bs, s')"
    by (auto elim: bnd_InrE)
  from rest obtain bs' s2 where more: "more_blocks cls c n s1 = Inr (bs', s2)"
    and bs: "bs = b # bs'"
    by (auto elim!: bnd_InrE simp: ret_def)
  from Suc.IH [OF more] new_block_is_block [OF b] bs show ?case by simp
qed

lemma make_layer_blocks:
  assumes "make_layer self cls n c st idx ic s = Inr (bs, s')"
  shows "stage_blocks bs n c st ic"
proof -
  from assms obtain b s1 where b: "new_block cls c st (c \<noteq> ic) ic (grad_cancel self) s = Inr (b, s1)"
    and rest: "bnd (more_blocks cls c (nat (n - 1))) (\<lambda>bs. ret (b # bs)) s1 = Inr (bs, s')"
    unfolding make_layer_def by (auto elim: bnd_InrE)
  from rest obtain bs' s2 where more: "more_blocks cls c (nat (n - 1)) s1 = Inr (bs', s2)"
    and bs: "bs = b # bs'"
    by (auto elim!: bnd_InrE simp: ret_def)
  from more_blocks_is_block [OF more] new_block_is_block [OF b] bs show ?thesis
    by (simp add: stage_blocks_def)
qed

lemma v1_stages_blocks:
  "v1_stages self cls channels i layers s = Inr (bs, s') \<Longrightarrow>
   \<exists>gs. bs = concat gs \<and> length gs = length layers \<and>
        (\<forall>k<length layers.
           stage_blocks (gs ! k) (layers ! k) (channels ! Suc (i + k))
             (if i + k = 0 then 1 else 2) (channels ! (i + k)))"
proof (induction layers arbitrary: i s bs s')
  case Nil
  then show ?case by (simp add: ret_def)
next
  case (Cons n rest)
  from Cons.prems obtain c s1 where c: "lift (item channels (i + 1)) s = Inr (c, s1)"
    and r1: "bnd (lift (item channels i)) (\<lambda>ic.
               bnd (make_layer self cls n c (if i = 0 then 1 else 2) (i + 1) ic) (\<lambda>bs.
               bnd (v1_stages self cls channels (i + 1) rest) (\<lambda>more. ret (bs @ more)))) s1
             = Inr (bs, s')"
    by (auto elim: bnd_InrE)
  from r1 obtain ic s2 where ic: "lift (item channels i) s1 = Inr (ic, s2)"
    and r2: "bnd (make_layer self cls n c (if i = 0 then 1 else 2) (i + 1) ic) (\<lambda>bs.
               bnd (v1_stages self cls channels (i + 1) rest) (\<lambda>more. ret (bs @ more))) s2
             = Inr (bs, s')"
    by (auto elim: bnd_InrE)
  from r2 obtain g s3 where g: "make_layer self cls n c (if i = 0 then 1 else 2) (i + 1) ic s2 = Inr (g, s3)"
    and r3: "bnd (v1_stages self cls channels (i + 1) rest) (\<lambda>more. ret (g @ more)) s3 = Inr (bs, s')"
    by (auto elim: bnd_InrE)
  from r3 obtain more s4 where more: "v1_stages self cls channels (i + 1) rest s3 = Inr (more, s4)"
    and bs: "bs = g @ more"
    by (auto elim!: bnd_InrE simp: ret_def)
  from c have cv: "c = channels ! Suc i"
    by (auto simp: lift_def item_def split: if_splits)
  from ic have icv: "ic = channels ! i"
    by (auto simp: lift_def item_def split: if_splits)
  from Cons.IH [OF more] obtain gs where gs: "more = concat gs" "length gs = length rest"
    and all: "\<forall>k<length rest.
           stage_blocks (gs ! k) (rest ! k) (channels ! Suc (i + 1 + k))
             (if i + 1 + k = 0 then 1 else 2) (channels ! (i + 1 + k))"
    by blast
  have "\<forall>k<length (n # rest).
           stage_blocks ((g # gs) ! k) ((n # rest) ! k) (channels ! Suc (i + k))
             (if i + k = 0 then 1 else 2) (channels ! (i + k))"
  proof (intro allI impI)
    fix k assume k: "k < length (n # rest)"
    show "stage_blocks ((g # gs) ! k) ((n # rest) ! k) (channels ! Suc (i + k))
             (if i + k = 0 then 1 else 2) (channels ! (i + k))"
    proof (cases k)
      case 0
      with make_layer_blocks [OF g] cv icv show ?thesis by simp
    next
      case (Suc j)
      with k all show ?thesis by simp
    qed
  qed
  with gs bs show ?case
    by (intro exI [where x = "g # gs"]) simp
qed

lemma bnd_lift_Inr_fun: "bnd (lift (Inr x)) f = f x"
  by (rule ext) (simp add: bnd_lift_Inr)

lemma v2_stages_eq_v1_stages:
  "item channels i = Inr ic \<Longrightarrow>
   v2_stages self cls channels i ic layers s = v1_stages self cls channels i layers s"
proof (induction layers arbitrary: i ic s)
  case Nil
  then show ?case by simp
next
  case (Cons n rest)
  show ?case
  proof (cases "item channels (i + 1)")
    case (Inl e)
    then show ?thesis by (simp add: bnd_lift_Inl)
  next
    case (Inr c)
    have "v2_stages self cls channels (i + 1) c rest = v1_stages self cls channels (i + 1) rest"
      using Cons.IH [OF Inr] by (rule ext)
    with Inr Cons.prems show ?thesis
      by (simp add: bnd_lift_Inr bnd_lift_Inr_fun)
  qed
qed

subsection \<open>The assembled networks\<close>

lemma ResNetEnas_eq:
  "ResNetEnas channels classes gc s =
     (case last_item channels of Inl e \<Rightarrow> Inl e
      | Inr u \<Rightarrow> Inr (\<lparr>features = [], net_output = Dense classes u s, grad_cancel = gc,
                        initial_layers = None\<rparr>, Suc s))"
  by (simp add: ResNetEnas_def bnd_def lift_def fresh_def ret_def split: sum.split)

lemma ResNetV1Enas_InrE:
  assumes "ResNetV1Enas cls layers channels classes variant gc s = Inr (net, s')"
  obtains u c0 B where
    "last_item channels = Inr u" and "item channels 0 = Inr c0"
    and "length channels = Suc (length layers)"
    and "v1_stages \<lparr>features = [], net_output = Dense classes u s, grad_cancel = gc,
                     initial_layers = None\<rparr> cls channels 0 layers (s + 4) = Inr (B, s')"
    and "features net =
           [Layer (BatchNorm False (Some (2 / 100000)) (s + 1)), InitialLayers variant c0 (s + 2),
            Layer (BatchNorm True None (s + 3))] @ map Block B
           @ [Layer (Activation ''relu''), GlobalAvgPool2D, Flatten]"
    and "net_output net = Dense classes u s"
proof -
  from assms obtain u where u: "last_item channels = Inr u"
    by (auto simp: ResNetV1Enas_def ResNetEnas_eq bnd_def split: sum.splits)
  from assms u have len: "length channels = Suc (length layers)"
    by (auto simp: ResNetV1Enas_def ResNetEnas_eq bnd_def lift_Inl split: if_splits)
  then obtain c0 where c0: "item channels 0 = Inr c0"
    by (auto simp: item_def)
  let ?self = "\<lparr>features = [], net_output = Dense classes u s, grad_cancel = gc,
                 initial_layers = None\<rparr>"
  have self: "ResNetEnas channels classes gc s = Inr (?self, Suc s)"
    using u by (simp add: ResNetEnas_eq)
  from assms len c0 have
    "bnd (v1_stages ?self cls channels 0 layers) (\<lambda>blocks.
       ret (?self\<lparr>features := [Layer (BatchNorm False (Some (2 / 100000)) (Suc s)),
                                  InitialLayers variant c0 (Suc (Suc s)),
                                  Layer (BatchNorm True None (Suc (Suc (Suc s))))]
                                 @ map Block blocks
                                 @ [Layer (Activation ''relu''), GlobalAvgPool2D, Flatten],
                    initial_layers := Some (InitialLayers variant c0 (Suc (Suc s)))\<rparr>))
       (Suc (Suc (Suc (Suc s)))) = Inr (net, s')"
    by (simp add: ResNetV1Enas_def bnd_Inr [where m = "ResNetEnas channels classes gc", OF self]
        bnd_new_BatchNorm bnd_lift_Inr add_initial_layers_def bnd_assoc bnd_fresh bnd_ret)
  then obtain B where B: "v1_stages ?self cls channels 0 layers (Suc (Suc (Suc (Suc s)))) = Inr (B, s')"
    and net: "net = ?self\<lparr>features := [Layer (BatchNorm False (Some (2 / 100000)) (Suc s)),
                                  InitialLayers variant c0 (Suc (Suc s)),
                                  Layer (BatchNorm True None (Suc (Suc (Suc s))))]
                                 @ map Block B
                                 @ [Layer (Activation ''relu''), GlobalAvgPool2D, Flatten],
                    initial_layers := Some (InitialLayers variant c0 (Suc (Suc s)))\<rparr>"
    by (auto elim!: bnd_InrE simp: ret_def)
  have "v1_stages ?self cls channels 0 layers (s + 4) = Inr (B, s')"
    using B by (simp add: eval_nat_numeral)
  moreover have "features net =
           [Layer (BatchNorm False (Some (2 / 100000)) (s + 1)), InitialLayers variant c0 (s + 2),
            Layer (BatchNorm True None (s + 3))] @ map Block B
           @ [Layer (Activation ''relu''), GlobalAvgPool2D, Flatten]"
    using net by (simp add: eval_nat_numeral)
  moreover have "net_output net = Dense classes u s"
    using net by simp
  ultimately show ?thesis
    using that u c0 len by blast
qed

lemma ResNetV2Enas_InrE:
  assumes "ResNetV2Enas cls layers channels classes variant gc s = Inr (net, s')"
  obtains u c0 B t where
    "last_item channels = Inr u" and "item channels 0 = Inr c0"
    and "length channels = Suc (length layers)"
    and "v2_stages \<lparr>features = [], net_output = Dense classes u s, grad_cancel = gc,
                     initial_layers = None\<rparr> cls channels 0 c0 layers (s + 3) = Inr (B, t)"
    and "features net =
           [Layer (BatchNorm False (Some (2 / 100000)) (s + 1)), InitialLayers variant c0 (s + 2)]
           @ map Block B
           @ [Layer (BatchNorm True None t), Layer (Activation ''relu''), GlobalAvgPool2D, Flatten]"
    and "net_output net = Dense classes u s"
proof -
  from assms obtain u where u: "last_item channels = Inr u"
    by (auto simp: ResNetV2Enas_def ResNetEnas_eq bnd_def split: sum.splits)
  from assms u have len: "length channels = Suc (length layers)"
    by (auto simp: ResNetV2Enas_def ResNetEnas_eq bnd_def lift_Inl split: if_splits)
  then obtain c0 where c0: "item channels 0 = Inr c0"
    by (auto simp: item_def)
  let ?self = "\<lparr>features = [], net_output = Dense classes u s, grad_cancel = gc,
                 initial_layers = None\<rparr>"
  have self: "ResNetEnas channels classes gc s = Inr (?self, Suc s)"
    using u by (simp add: ResNetEnas_eq)
  from assms len c0 have
    "bnd (v2_stages ?self cls channels 0 c0 layers) (\<lambda>blocks.
       bnd (new_BatchNorm True None) (\<lambda>bn1.
       ret (?self\<lparr>features := [Layer (BatchNorm False (Some (2 / 100000)) (Suc s)),
                                  InitialLayers variant c0 (Suc (Suc s))]
                                 @ map Block blocks
                                 @ [Layer bn1, Layer (Activation ''relu''), GlobalAvgPool2D,
                                    Flatten],
                    initial_layers := Some (InitialLayers variant c0 (Suc (Suc s)))\<rparr>)))
       (Suc (Suc (Suc s))) = Inr (net, s')"
    by (simp add: ResNetV2Enas_def bnd_Inr [where m = "ResNetEnas channels classes gc", OF self]
        bnd_new_BatchNorm bnd_lift_Inr add_initial_layers_def bnd_assoc bnd_fresh bnd_ret)
  then obtain B t where B: "v2_stages ?self cls channels 0 c0 layers (Suc (Suc (Suc s))) = Inr (B, t)"
    and net: "net = ?self\<lparr>features := [Layer (BatchNorm False (Some (2 / 100000)) (Suc s)),
                                  InitialLayers variant c0 (Suc (Suc s))]
                                 @ map Block B
                                 @ [Layer (BatchNorm True None t), Layer (Activation ''relu''),
                                    GlobalAvgPool2D, Flatten],
                    initial_layers := Some (InitialLayers variant c0 (Suc (Suc s)))\<rparr>"
    by (auto elim!: bnd_InrE simp: ret_def new_BatchNorm_eq)
  have "v2_stages ?self cls channels 0 c0 layers (s + 3) = Inr (B, t)"
    using B by (simp add: eval_nat_numeral)
  moreover have "features net =
           [Layer (BatchNorm False (Some (2 / 100000)) (s + 1)), InitialLayers variant c0 (s + 2)]
           @ map Block B
           @ [Layer (BatchNorm True None t), Layer (Activation ''relu''), GlobalAvgPool2D, Flatten]"
    using net by (simp add: eval_nat_numeral)
  moreover have "net_output net = Dense classes u s"
    using net by simp
  ultimately show ?thesis
    using that u c0 len by blast
qed

lemma blocks_of_map_Block: "blocks_of (map Block bs @ rest) = bs @ blocks_of rest"
  by (induction bs) simp_all

lemma small_v1_net:
  "ResNetV1Enas BasicBlockV1EnasClass [1, 1] [64, 64, c] 1000 ''imagenet'' 1 0 =
     Inr (\<lparr>features =
             [Layer (BatchNorm False (Some (2 / 100000)) 1), InitialLayers ''imagenet'' 64 2,
              Layer (BatchNorm True None 3),
              Block (BasicV1 (v1_block 4 64 1 64 1 1 \<lparr>pid = 5, shape = [64, 1, 1]\<rparr> 6
                                \<lparr>pid = 7, shape = [64, 1, 1]\<rparr> 8 None)),
              Block (BasicV1 (v1_block 9 c 2 64 1 1 \<lparr>pid = 10, shape = [c, 2, 1]\<rparr> 11
                                \<lparr>pid = 12, shape = [c, 1, 1]\<rparr> 13
                                (if c \<noteq> 64
                                 then Some (\<lparr>pid = 14, shape = [c, 2, 1]\<rparr>, 15)
                                 else None))),
              Layer (Activation ''relu''), GlobalAvgPool2D, Flatten],
           net_output = Dense 1000 c 0, grad_cancel = 1,
           initial_layers = Some (InitialLayers ''imagenet'' 64 2)\<rparr>,
          if c \<noteq> 64 then 16 else 14)"
  by (simp add: ResNetV1Enas_def ResNetEnas_eq last_item_def bnd_def lift_def item_def
      new_BatchNorm_eq add_initial_layers_def fresh_def ret_def make_layer_def
      new_block_BasicBlockV1 del: new_block.simps) (simp add: eval_nat_numeral)

text \<open>
  C6 as the specification states it, at \<^verbatim>\<open>ResNetV1Enas(BasicBlockV1Enas, [1, 1],
  [64, 64, 64])\<close>: the second stage has stride 2 and its first block has no downsample
  branch, since the stage keeps the channel count.
\<close>

theorem first_block_downsample_counterexample:
  "map_sum id (\<lambda>(net, s). map (\<lambda>b. (block_stride b, has_downsample b)) (blocks_of (features net)))
     (ResNetV1Enas BasicBlockV1EnasClass [1, 1] [64, 64, 64] 1000 ''imagenet'' 1 0) =
   Inr [(Some 1, False), (Some 2, False)]"
  by (simp add: small_v1_net v1_block_def)

text \<open>
  C6, amended: for every network that \<^verbatim>\<open>ResNetV1Enas\<close> or \<^verbatim>\<open>ResNetV2Enas\<close>
  assembles, the blocks are the stages in order, one per entry of \<^verbatim>\<open>layers\<close>; the
  first block of stage \<open>k\<close> has a downsample branch if and only if the stage's output
  channel count \<^verbatim>\<open>channels[k + 1]\<close> differs from its input channel count
  \<^verbatim>\<open>channels[k]\<close>, whatever the stride, which is 1 for the first stage and 2 for the
  others; the blocks after the first have stride 1 and no downsample branch.
\<close>

theorem first_block_downsample_iff_channels_differ:
  assumes "ResNetV1Enas cls layers channels classes variant gc s = Inr (net, s') \<or>
           ResNetV2Enas cls layers channels classes variant gc s = Inr (net, s')"
  shows "\<exists>gs. blocks_of (features net) = concat gs \<and> length gs = length layers \<and>
              (\<forall>k<length layers.
                 stage_shape (gs ! k) (if k = 0 then 1 else 2)
                   (channels ! Suc k \<noteq> channels ! k))"
proof -
  from assms obtain self B t where
    B: "v1_stages self cls channels 0 layers t = Inr (B, s') \<or>
        (\<exists>t'. v1_stages self cls channels 0 layers t = Inr (B, t'))"
    and f: "blocks_of (features net) = B"
  proof
    assume "ResNetV1Enas cls layers channels classes variant gc s = Inr (net, s')"
    then show ?thesis
      by (elim ResNetV1Enas_InrE) (rule that, auto simp: blocks_of_map_Block)
  next
    assume "ResNetV2Enas cls layers channels classes variant gc s = Inr (net, s')"
    then show ?thesis
      by (elim ResNetV2Enas_InrE)
        (rule that, auto simp: blocks_of_map_Block v2_stages_eq_v1_stages)
  qed
  from B obtain t' where "v1_stages self cls channels 0 layers t = Inr (B, t')"
    by blast
  from v1_stages_shape [OF this] obtain gs where gs: "B = concat gs" "length gs = length layers"
    and all: "\<forall>k<length layers.
                stage_shape (gs ! k) (if 0 + k = 0 then 1 else 2)
                  (channels ! Suc (0 + k) \<noteq> channels ! (0 + k)) \<and>
                int (length (gs ! k)) = max 1 (layers ! k)"
    by blast
  from all have "\<forall>k<length layers.
                  stage_shape (gs ! k) (if k = 0 then 1 else 2)
                    (channels ! Suc k \<noteq> channels ! k)"
    by simp
  with gs f show ?thesis
    by blast
qed

theorem first_block_downsample_iff_channels_differ_witness:
  "\<exists>net s' gs.
     ResNetV1Enas BasicBlockV1EnasClass [1, 1] [64, 64, 128] 1000 ''imagenet'' 1 0
       = Inr (net, s') \<and>
     blocks_of (features net) = concat gs \<and> length gs = 2 \<and>
     stage_shape (gs ! 0) 1 False \<and> stage_shape (gs ! 1) 2 True"
proof -
  obtain net s' where
    h: "ResNetV1Enas BasicBlockV1EnasClass [1, 1] [64, 64, 128] 1000 ''imagenet'' 1 0
          = Inr (net, s')"
    by (simp add: small_v1_net)
  from first_block_downsample_iff_channels_differ [OF disjI1, OF h]
  obtain gs where "blocks_of (features net) = concat gs" "length gs = 2"
    "\<forall>k<2. stage_shape (gs ! k) (if k = 0 then 1 else 2)
              ([64, 64, 128 :: int] ! Suc k \<noteq> [64, 64, 128] ! k)"
    by auto
  moreover from this(3) have "stage_shape (gs ! 0) 1 False" "stage_shape (gs ! 1) 2 True"
    by (auto dest: spec [where x = 0] spec [where x = 1])
  ultimately show ?thesis
    using h by blast
qed

subsection \<open>Networks of basic blocks are built\<close>

text \<open>
  With one of the two basic block classes and a channel schedule one longer than the layer
  counts, both network constructors return a network; so for the depths 18 and 34
  \<^verbatim>\<open>get_resnet_enas\<close> reaches its pretrained check.
\<close>

lemma more_blocks_basic:
  assumes "cls = BasicBlockV1EnasClass \<or> cls = BasicBlockV2EnasClass"
  shows "\<exists>bs s'. more_blocks cls c n s = Inr (bs, s')"
proof (induction n arbitrary: s)
  case 0
  show ?case by (simp add: ret_def)
next
  case (Suc n)
  from assms obtain b s1 where b: "new_block cls c 1 False c 1 s = Inr (b, s1)"
    by (auto simp del: new_block.simps simp add: new_block_BasicBlockV1 new_block_BasicBlockV2)
  from Suc.IH [of s1] obtain bs s2 where "more_blocks cls c n s1 = Inr (bs, s2)"
    by blast
  with b show ?case
    by (simp add: bnd_def ret_def del: new_block.simps)
qed

lemma make_layer_basic:
  assumes "cls = BasicBlockV1EnasClass \<or> cls = BasicBlockV2EnasClass"
  shows "\<exists>bs s'. make_layer self cls n c st idx ic s = Inr (bs, s')"
proof -
  from assms obtain b s1 where
    b: "new_block cls c st (c \<noteq> ic) ic (grad_cancel self) s = Inr (b, s1)"
    by (auto simp del: new_block.simps simp add: new_block_BasicBlockV1 new_block_BasicBlockV2)
  from more_blocks_basic [OF assms, of c "nat (n - 1)" s1] obtain bs s2 where
    "more_blocks cls c (nat (n - 1)) s1 = Inr (bs, s2)"
    by blast
  with b show ?thesis
    by (simp add: make_layer_def bnd_def ret_def del: new_block.simps)
qed

lemma v1_stages_basic:
  assumes "cls = BasicBlockV1EnasClass \<or> cls = BasicBlockV2EnasClass"
  shows "i + length layers < length channels \<Longrightarrow>
         \<exists>bs s'. v1_stages self cls channels i layers s = Inr (bs, s')"
proof (induction layers arbitrary: i s)
  case Nil
  show ?case by (simp add: ret_def)
next
  case (Cons n rest)
  from Cons.prems have c: "item channels (i + 1) = Inr (channels ! (i + 1))"
    and ic: "item channels i = Inr (channels ! i)"
    by (simp_all add: item_def)
  from make_layer_basic [OF assms] obtain bs s1 where
    m: "make_layer self cls n (channels ! (i + 1)) (if i = 0 then 1 else 2) (i + 1)
          (channels ! i) s = Inr (bs, s1)"
    by blast
  from Cons.prems Cons.IH [of "i + 1" s1] obtain more s2 where
    "v1_stages self cls channels (i + 1) rest s1 = Inr (more, s2)"
    by auto
  with c ic m show ?case
    by (simp add: bnd_def lift_def ret_def)
qed

lemma ResNetV1Enas_basic:
  assumes "cls = BasicBlockV1EnasClass \<or> cls = BasicBlockV2EnasClass"
      and "length channels = Suc (length layers)"
  shows "\<exists>net s'. ResNetV1Enas cls layers channels classes variant gc s = Inr (net, s')"
proof -
  from assms(2) obtain u where u: "last_item channels = Inr u"
    by (cases channels) (simp_all add: last_item_def)
  from assms(2) have c0: "item channels 0 = Inr (channels ! 0)"
    by (simp add: item_def)
  let ?self = "\<lparr>features = [], net_output = Dense classes u s, grad_cancel = gc,
                 initial_layers = None\<rparr>"
  from assms(2) v1_stages_basic [OF assms(1), of 0 layers channels ?self "Suc (Suc (Suc (Suc s)))"]
  obtain bs s' where "v1_stages ?self cls channels 0 layers (Suc (Suc (Suc (Suc s)))) = Inr (bs, s')"
    by auto
  with u c0 assms(2) show ?thesis
    by (simp add: ResNetV1Enas_def ResNetEnas_eq bnd_def lift_def new_BatchNorm_eq
        add_initial_layers_def fresh_def ret_def)
qed

lemma ResNetV2Enas_basic:
  assumes "cls = BasicBlockV1EnasClass \<or> cls = BasicBlockV2EnasClass"
      and "length channels = Suc (length layers)"
  shows "\<exists>net s'. ResNetV2Enas cls layers channels classes variant gc s = Inr (net, s')"
proof -
  from assms(2) obtain u where u: "last_item channels = Inr u"
    by (cases channels) (simp_all add: last_item_def)
  from assms(2) have c0: "item channels 0 = Inr (channels ! 0)"
    by (simp add: item_def)
  let ?self = "\<lparr>features = [], net_output = Dense classes u s, grad_cancel = gc,
                 initial_layers = None\<rparr>"
  from assms(2) v1_stages_basic [OF assms(1), of 0 layers channels ?self "Suc (Suc (Suc s))"]
  obtain bs s' where "v1_stages ?self cls channels 0 layers (Suc (Suc (Suc s))) = Inr (bs, s')"
    by auto
  with u c0 assms(2) show ?thesis
    by (simp add: ResNetV2Enas_def ResNetEnas_eq bnd_def lift_def new_BatchNorm_eq
        add_initial_layers_def fresh_def ret_def v2_stages_eq_v1_stages [OF c0])
qed

lemma get_resnet_enas_basic_pretrained:
  assumes "version \<in> {1, 2}" and "num_layers \<in> {18, 34}"
  shows "get_resnet_enas version num_layers True s = Inl UnsupportedOperation"
proof -
  from assms(2) obtain layers where
    spec: "resnet_spec num_layers = Some (''basic_block'', layers, [64, 64, 128, 256, 512])"
    and len: "length layers = 4"
    by (auto simp: resnet_spec_def)
  from assms(1) show ?thesis
  proof
    assume v: "version = 1"
    from ResNetV1Enas_basic [of BasicBlockV1EnasClass "[64, 64, 128, 256, 512]" layers
        1000 "''imagenet''" 1 s] len
    obtain net s' where
      "ResNetV1Enas BasicBlockV1EnasClass layers [64, 64, 128, 256, 512] 1000 ''imagenet'' 1 s
         = Inr (net, s')"
      by auto
    with v spec show ?thesis
      by (simp add: get_resnet_enas_def resnet_net_versions_def resnet_block_versions_def
          bnd_def lift_def item_def lookup_def)
  next
    assume "version \<in> {2}"
    then have v: "version = 2" by simp
    from ResNetV2Enas_basic [of BasicBlockV2EnasClass "[64, 64, 128, 256, 512]" layers
        1000 "''imagenet''" 1 s] len
    obtain net s' where
      "ResNetV2Enas BasicBlockV2EnasClass layers [64, 64, 128, 256, 512] 1000 ''imagenet'' 1 s
         = Inr (net, s')"
      by auto
    with v spec show ?thesis
      by (simp add: get_resnet_enas_def resnet_net_versions_def resnet_block_versions_def
          bnd_def lift_def item_def lookup_def)
  qed
qed

subsection \<open>V1 and V2 side by side\<close>

lemma strip_conv_conv_layer:
  "strip_conv (conv_layer cfg c k st pad ic ub bits w) =
     conv_layer cfg c k st pad ic ub bits (strip_params w)"
  by (simp add: strip_conv_def conv_layer_def)

lemma strip_block_v1_block:
  "strip_block (BasicV1 (v1_block d c st ic bits gc w1 i1 w2 i2 ds)) =
     BasicV1 (v1_block 0 c st ic bits gc (strip_params w1) 0 (strip_params w2) 0
                (map_option (\<lambda>(dw, i). (strip_params dw, 0)) ds))"
  by (cases ds) (auto simp: v1_block_def strip_conv_conv_layer)

lemma strip_block_v2_block:
  "strip_block (BasicV2 (v2_block d c st ic bits gc i0 w1 i1 w2 ds cw1 cw2 dcw)) =
     BasicV2 (v2_block 0 c st ic bits gc 0 (strip_params w1) 0 (strip_params w2)
                (map_option strip_params ds) (map_option strip_params cw1)
                (map_option strip_params cw2) (map_option (map_option strip_params) dcw))"
  by (cases ds) (auto simp: v2_block_def strip_conv_conv_layer)

lemma new_block_outcome:
  "outcome strip_block (new_block cls c st ds ic gc) s =
   outcome strip_block (new_block cls c st ds ic gc) t"
  by (cases cls)
    (simp_all add: outcome_def new_block_BasicBlockV1 new_block_BasicBlockV2
      new_block_BottleneckV1 new_block_BottleneckV2 strip_block_v1_block strip_block_v2_block
      strip_params_def del: new_block.simps strip_block.simps)

lemma outcome_bnd:
  assumes "outcome f m s = outcome f m' t"
      and "\<And>x y s' t'. f x = f y \<Longrightarrow> outcome g (k x) s' = outcome g (k' y) t'"
  shows "outcome g (bnd m k) s = outcome g (bnd m' k') t"
proof (cases "m s")
  case (Inl e)
  with assms(1) have "m' t = Inl e"
    by (auto simp: outcome_def split: sum.splits)
  with Inl show ?thesis
    by (simp add: outcome_def bnd_def)
next
  case (Inr r)
  obtain x s' where r: "r = (x, s')" by (cases r)
  with Inr assms(1) obtain y t' where m': "m' t = Inr (y, t')" and fxy: "f x = f y"
    by (auto simp: outcome_def split: sum.splits)
  from assms(2) [OF fxy, of s' t'] Inr r m' show ?thesis
    by (simp add: outcome_def bnd_def)
qed

lemma outcome_ret: "outcome f (ret x) s = Inr (f x)"
  by (simp add: outcome_def ret_def)

lemma outcome_lift: "outcome f (lift r) s = outcome f (lift r) t"
  by (simp add: outcome_def lift_def split: sum.split)

lemma more_blocks_outcome:
  "outcome (map strip_block) (more_blocks cls c n) s =
   outcome (map strip_block) (more_blocks cls c n) t"
proof (induction n arbitrary: s t)
  case 0
  show ?case by (simp add: outcome_ret)
next
  case (Suc n)
  show ?case
    unfolding more_blocks.simps
    by (rule outcome_bnd [OF new_block_outcome], rule outcome_bnd [OF Suc.IH])
      (simp add: outcome_ret)
qed

lemma make_layer_outcome:
  "outcome (map strip_block) (make_layer self cls n c st idx ic) s =
   outcome (map strip_block) (make_layer self cls n c st idx ic) t"
  unfolding make_layer_def
  by (rule outcome_bnd [OF new_block_outcome], rule outcome_bnd [OF more_blocks_outcome])
    (simp add: outcome_ret)

lemma v1_stages_outcome:
  "outcome (map strip_block) (v1_stages self cls channels i layers) s =
   outcome (map strip_block) (v1_stages self cls channels i layers) t"
proof (induction layers arbitrary: i s t)
  case Nil
  show ?case by (simp add: outcome_ret)
next
  case (Cons n rest)
  show ?case
    unfolding v1_stages.simps
    apply (rule outcome_bnd [where f = id, OF outcome_lift])
    apply (rule outcome_bnd [where f = id, OF outcome_lift])
    apply (simp only: id_apply)
    apply hypsubst
    apply (rule outcome_bnd [OF make_layer_outcome])
    apply (rule outcome_bnd [OF Cons.IH])
    apply (simp add: outcome_ret)
    done
qed

text \<open>
  C8: built from the same basic block class, layer counts and channel schedule (one channel
  count more than there are stages), \<^verbatim>\<open>ResNetV1Enas\<close> and \<^verbatim>\<open>ResNetV2Enas\<close> both
  return a network, and their feature sequences differ only in the place of one batchnorm.
  Both start with the input batchnorm without scale and the stem for \<^verbatim>\<open>channels[0]\<close>
  and end with the activation, the global average pool and the flatten layer; V1 has the
  extra batchnorm right after the stem, V2 has it right before the activation. Between them
  stand the stage blocks, the same in both up to the numbering of their parameter sets: one
  stage per entry of \<^verbatim>\<open>layers\<close>, stage \<open>k\<close> made of \<^verbatim>\<open>layers[k]\<close> blocks (at least
  one) of \<^verbatim>\<open>channels[k + 1]\<close> channels, the first with stride 1 in the first stage and 2
  in the others, input channels \<^verbatim>\<open>channels[k]\<close> and a downsample branch when the two
  channel counts differ, the others with stride 1 and no downsample branch. The sequence
  handed to the search is the features followed by the dense head on the last channel
  count, which is the same in both.
\<close>

theorem v1_v2_differ_in_batchnorm_placement:
  assumes "cls = BasicBlockV1EnasClass \<or> cls = BasicBlockV2EnasClass"
      and "length channels = Suc (length layers)"
  shows "\<exists>n1 s1 n2 s2 i0 i1 i2 i3 i4 B1 B2 gs.
           ResNetV1Enas cls layers channels classes variant gc s = Inr (n1, s1) \<and>
           ResNetV2Enas cls layers channels classes variant gc s = Inr (n2, s2) \<and>
           features n1 =
             [Layer (BatchNorm False (Some (2 / 100000)) i0),
              InitialLayers variant (channels ! 0) i1,
              Layer (BatchNorm True None i2)] @ map Block B1
             @ [Layer (Activation ''relu''), GlobalAvgPool2D, Flatten] \<and>
           features n2 =
             [Layer (BatchNorm False (Some (2 / 100000)) i0),
              InitialLayers variant (channels ! 0) i1]
             @ map Block B2
             @ [Layer (BatchNorm True None i3), Layer (Activation ''relu''), GlobalAvgPool2D,
                Flatten] \<and>
           map strip_block B1 = map strip_block B2 \<and>
           B1 = concat gs \<and> length gs = length layers \<and>
           (\<forall>k<length layers.
              stage_blocks (gs ! k) (layers ! k) (channels ! Suc k) (if k = 0 then 1 else 2)
                (channels ! k)) \<and>
           enas_sequential n1 = features n1 @ [net_output n1] \<and>
           enas_sequential n2 = features n2 @ [net_output n2] \<and>
           net_output n1 = Dense classes (last channels) i4 \<and>
           net_output n2 = Dense classes (last channels) i4"
proof -
  from ResNetV1Enas_basic [OF assms] obtain n1 s1 where
    h1: "ResNetV1Enas cls layers channels classes variant gc s = Inr (n1, s1)"
    by blast
  from ResNetV2Enas_basic [OF assms] obtain n2 s2 where
    h2: "ResNetV2Enas cls layers channels classes variant gc s = Inr (n2, s2)"
    by blast
  from h1 obtain u c0 B1 where
    u: "last_item channels = Inr u" and c0: "item channels 0 = Inr c0"
    and st1: "v1_stages \<lparr>features = [], net_output = Dense classes u s, grad_cancel = gc,
                          initial_layers = None\<rparr> cls channels 0 layers (s + 4) = Inr (B1, s1)"
    and f1: "features n1 =
           [Layer (BatchNorm False (Some (2 / 100000)) (s + 1)), InitialLayers variant c0 (s + 2),
            Layer (BatchNorm True None (s + 3))] @ map Block B1
           @ [Layer (Activation ''relu''), GlobalAvgPool2D, Flatten]"
    and o1: "net_output n1 = Dense classes u s"
    by (rule ResNetV1Enas_InrE)
  from h2 obtain u' c0' B2 t where
    u': "last_item channels = Inr u'" and c0': "item channels 0 = Inr c0'"
    and st2: "v2_stages \<lparr>features = [], net_output = Dense classes u' s, grad_cancel = gc,
                          initial_layers = None\<rparr> cls channels 0 c0' layers (s + 3) = Inr (B2, t)"
    and f2: "features n2 =
           [Layer (BatchNorm False (Some (2 / 100000)) (s + 1)), InitialLayers variant c0' (s + 2)]
           @ map Block B2
           @ [Layer (BatchNorm True None t), Layer (Activation ''relu''), GlobalAvgPool2D, Flatten]"
    and o2: "net_output n2 = Dense classes u' s"
    by (rule ResNetV2Enas_InrE)
  from u u' c0 c0' have same: "u' = u" "c0' = c0" by simp_all
  from u have uv: "u = last channels"
    by (cases channels) (simp_all add: last_item_def)
  from c0 have c0v: "c0 = channels ! 0"
    by (auto simp: item_def split: if_splits)
  let ?self = "\<lparr>features = [], net_output = Dense classes u s, grad_cancel = gc,
                 initial_layers = None\<rparr>"
  from st2 have "v1_stages ?self cls channels 0 layers (s + 3) = Inr (B2, t)"
    by (simp add: same v2_stages_eq_v1_stages [OF c0])
  with st1 v1_stages_outcome [of ?self cls channels 0 layers "s + 4" "s + 3"]
  have strip: "map strip_block B1 = map strip_block B2"
    by (simp add: outcome_def)
  from v1_stages_blocks [OF st1] obtain gs where gs: "B1 = concat gs" "length gs = length layers"
    and all: "\<forall>k<length layers.
                stage_blocks (gs ! k) (layers ! k) (channels ! Suc (0 + k))
                  (if 0 + k = 0 then 1 else 2) (channels ! (0 + k))"
    by blast
  from all have all': "\<forall>k<length layers.
      stage_blocks (gs ! k) (layers ! k) (channels ! Suc k) (if k = 0 then 1 else 2)
        (channels ! k)"
    by simp
  show ?thesis
    unfolding enas_sequential_def
    apply (rule exI [where x = n1], rule exI [where x = s1])
    apply (rule exI [where x = n2], rule exI [where x = s2])
    apply (rule exI [where x = "s + 1"], rule exI [where x = "s + 2"])
    apply (rule exI [where x = "s + 3"], rule exI [where x = t], rule exI [where x = s])
    apply (rule exI [where x = B1], rule exI [where x = B2], rule exI [where x = gs])
    using h1 h2 f1 f2 o1 o2 strip same uv c0v gs all'
    apply simp
    done
qed

theorem v1_v2_differ_in_batchnorm_placement_witness:
  "\<exists>n1 s1 n2 s2 i0 i1 i2 i3 i4 B1 B2 gs.
     ResNetV1Enas BasicBlockV1EnasClass [2, 1] [64, 64, 128] 1000 ''imagenet'' 1 0
       = Inr (n1, s1) \<and>
     ResNetV2Enas BasicBlockV1EnasClass [2, 1] [64, 64, 128] 1000 ''imagenet'' 1 0
       = Inr (n2, s2) \<and>
     features n1 =
       [Layer (BatchNorm False (Some (2 / 100000)) i0), InitialLayers ''imagenet'' 64 i1,
        Layer (BatchNorm True None i2)] @ map Block B1
       @ [Layer (Activation ''relu''), GlobalAvgPool2D, Flatten] \<and>
     features n2 =
       [Layer (BatchNorm False (Some (2 / 100000)) i0), InitialLayers ''imagenet'' 64 i1]
       @ map Block B2
       @ [Layer (BatchNorm True None i3), Layer (Activation ''relu''), GlobalAvgPool2D,
          Flatten] \<and>
     map strip_block B1 = map strip_block B2 \<and>
     B1 = concat gs \<and> length gs = 2 \<and>
     stage_blocks (gs ! 0) 2 64 1 64 \<and> stage_blocks (gs ! 1) 1 128 2 64 \<and>
     net_output n1 = Dense 1000 128 i4 \<and> net_output n2 = Dense 1000 128 i4"
proof -
  have len: "length [64, 64, 128 :: int] = Suc (length [2, 1 :: int])"
    by simp
  from v1_v2_differ_in_batchnorm_placement [OF disjI1, OF refl len,
      where classes = 1000 and variant = "''imagenet''" and gc = 1 and s = 0]
  obtain n1 s1 n2 s2 i0 i1 i2 i3 i4 B1 B2 gs where
    h: "ResNetV1Enas BasicBlockV1EnasClass [2, 1] [64, 64, 128] 1000 ''imagenet'' 1 0
          = Inr (n1, s1)"
       "ResNetV2Enas BasicBlockV1EnasClass [2, 1] [64, 64, 128] 1000 ''imagenet'' 1 0
          = Inr (n2, s2)"
       "features n1 =
          [Layer (BatchNorm False (Some (2 / 100000)) i0), InitialLayers ''imagenet'' 64 i1,
           Layer (BatchNorm True None i2)] @ map Block B1
          @ [Layer (Activation ''relu''), GlobalAvgPool2D, Flatten]"
       "features n2 =
          [Layer (BatchNorm False (Some (2 / 100000)) i0), InitialLayers ''imagenet'' 64 i1]
          @ map Block B2
          @ [Layer (BatchNorm True None i3), Layer (Activation ''relu''), GlobalAvgPool2D,
             Flatten]"
       "map strip_block B1 = map strip_block B2"
       "B1 = concat gs" "length gs = 2"
       "net_output n1 = Dense 1000 128 i4" "net_output n2 = Dense 1000 128 i4"
    and all: "\<forall>k<2. stage_blocks (gs ! k) ([2, 1] ! k) ([64, 64, 128] ! Suc k)
                       (if k = 0 then 1 else 2) ([64, 64, 128] ! k)"
    by auto
  from all have "stage_blocks (gs ! 0) 2 64 1 64" "stage_blocks (gs ! 1) 1 128 2 64"
    by (auto dest: spec [where x = 0] spec [where x = 1])
  with h show ?thesis
    by blast
qed

subsection \<open>Construction failures\<close>

text \<open>
  C3: constructing \<^verbatim>\<open>BottleneckV2Enas\<close> with \<^verbatim>\<open>downsample=True\<close> raises an error at
  construction time, whatever the other arguments and the partner are. The read of
  \<^verbatim>\<open>self.downsample_weights\<close>, an attribute the class never assigns, raises an
  AttributeError, so the construction fails whatever the call that builds the second
  convolution does, and fails with that AttributeError when the call binds the four
  arguments of \<^verbatim>\<open>_conv3x3\<close> as its body uses them. \<^verbatim>\<open>get_resnet_enas(2, d)\<close> fails
  during construction for the bottleneck depths 50, 101 and 152, whose first stage has
  \<^verbatim>\<open>channels[1] != channels[0]\<close> and so asks for a downsampling block.
\<close>

theorem BottleneckV2Enas_downsample_raises:
  "isl (BottleneckV2Enas channels stride True in_channels bits gc partner s) \<and>
   isl (BottleneckV2Enas_with second_conv channels stride True in_channels bits gc partner s) \<and>
   read_downsample_weights = Inl (AttributeError ''downsample_weights'') \<and>
   BottleneckV2Enas_with
     (\<lambda>cfg w. QConv2D cfg (channels div 4) 3 stride 1 (channels div 4) None (Some bits) w)
     channels stride True in_channels bits gc None s
     = Inl (AttributeError ''downsample_weights'') \<and>
   isl (get_resnet_enas 2 50 pretrained s) \<and>
   isl (get_resnet_enas 2 101 pretrained s) \<and>
   isl (get_resnet_enas 2 152 pretrained s) \<and>
   map_option (\<lambda>(block_type, layers, channels). channels ! 1 \<noteq> channels ! 0)
     (resnet_spec 50) = Some True \<and>
   map_option (\<lambda>(block_type, layers, channels). channels ! 1 \<noteq> channels ! 0)
     (resnet_spec 101) = Some True \<and>
   map_option (\<lambda>(block_type, layers, channels). channels ! 1 \<noteq> channels ! 0)
     (resnet_spec 152) = Some True"
  by (simp add: BottleneckV2Enas_fails BottleneckV2Enas_with_downsample_fails
      read_downsample_weights_def
      BottleneckV2Enas_with_bound_call
      get_resnet_enas_2_bottleneck [OF resnet_spec_50]
      get_resnet_enas_2_bottleneck [OF resnet_spec_101]
      get_resnet_enas_2_bottleneck [OF resnet_spec_152]
      resnet_spec_50 resnet_spec_101 resnet_spec_152)

text \<open>
  C7, on the code: \<^verbatim>\<open>get_resnet_enas(1, 50)\<close> returns no network. The first
  \<^verbatim>\<open>BottleneckV1Enas\<close> it builds calls \<^verbatim>\<open>_conv3x3\<close> with three positional arguments
  where the helper has four required parameters, which is a TypeError.
\<close>

theorem get_resnet_enas_1_50_raises:
  "get_resnet_enas 1 50 False 0 = Inl (TypeError ''missing required positional argument'')"
  by (rule get_resnet_enas_1_50)

text \<open>
  C10, on the code: with \<^verbatim>\<open>pretrained=True\<close> at the supported pair (1, 50) the error is
  the TypeError of the block constructor, raised before the pretrained check is reached,
  and not the error of the pretrained check.
\<close>

theorem get_resnet_enas_1_50_pretrained_raises:
  "get_resnet_enas 1 50 True 0 = Inl (TypeError ''missing required positional argument'') \<and>
   get_resnet_enas 1 50 True 0 \<noteq> Inl UnsupportedOperation"
  by (simp add: get_resnet_enas_1_50)

text \<open>
  C9: \<^verbatim>\<open>get_resnet_enas(version, num_layers)\<close> fails with InvalidConfiguration whenever
  \<^verbatim>\<open>num_layers\<close> is not one of 18, 34, 50, 101, 152 or \<^verbatim>\<open>version\<close> is not 1 or 2; the
  result is the error and no network.
\<close>

theorem get_resnet_enas_invalid:
  assumes "num_layers \<notin> {18, 34, 50, 101, 152} \<or> version \<notin> {1, 2}"
  shows "get_resnet_enas version num_layers pretrained s = Inl InvalidConfiguration"
proof (cases "resnet_spec num_layers")
  case None
  then show ?thesis
    by (simp add: get_resnet_enas_def lift_def)
next
  case (Some spec)
  then have "num_layers \<in> {18, 34, 50, 101, 152}"
    by (auto simp: resnet_spec_def split: if_splits)
  with assms have "\<not> (1 \<le> version \<and> version \<le> 2)"
    by auto
  with Some show ?thesis
    by (cases spec) (simp add: get_resnet_enas_def lift_def)
qed

theorem get_resnet_enas_invalid_witness:
  "get_resnet_enas 3 18 False 0 = Inl InvalidConfiguration \<and>
   get_resnet_enas 1 19 False 0 = Inl InvalidConfiguration"
  using get_resnet_enas_invalid [of 18 3 False 0] get_resnet_enas_invalid [of 19 1 False 0]
  by simp


end
